theory Spec2Isabelle
  imports Complex_Main "HOL-Library.Sublist" "HOL-Library.Multiset"
begin

section \<open>Strings and paths\<close>

text \<open>
  Python strings are modelled as \<open>string\<close> (lists of 8-bit characters), so the model
  speaks of ASCII text: \<open>str.lower\<close> maps \<open>A\<close>..\<open>Z\<close> to \<open>a\<close>..\<open>z\<close> and leaves every other
  character alone.
\<close>

definition lower_char :: "char \<Rightarrow> char" where
  "lower_char c =
     (case map_of (zip ''ABCDEFGHIJKLMNOPQRSTUVWXYZ'' ''abcdefghijklmnopqrstuvwxyz'') c of
        Some l \<Rightarrow> l
      | None \<Rightarrow> c)"

definition lower :: "string \<Rightarrow> string" where
  "lower s = map lower_char s"

text \<open>\<open>s.endswith(suf)\<close>.\<close>

definition endswith :: "string \<Rightarrow> string \<Rightarrow> bool" where
  "endswith s suf \<longleftrightarrow>
     length suf \<le> length s \<and> drop (length s - length suf) s = suf"

text \<open>\<open>s.startswith(pre)\<close>.\<close>

definition startswith :: "string \<Rightarrow> string \<Rightarrow> bool" where
  "startswith s pre \<longleftrightarrow> take (length pre) s = pre"

text \<open>
  \<open>re.search(pattern, s)\<close> for a pattern without metacharacters (every pattern of the
  table below is a plain lower-case word): the pattern occurs somewhere in \<open>s\<close>. The
  scan tries every start position from the left.
\<close>

fun re_search :: "string \<Rightarrow> string \<Rightarrow> bool" where
  "re_search pat [] = (pat = [])"
| "re_search pat (c # cs) = (startswith (c # cs) pat \<or> re_search pat cs)"

text \<open>
  \<open>pathlib\<close> on a POSIX host. A path is split at \<open>/\<close>; empty components and \<open>.\<close>
  components are dropped; \<open>name\<close> is the last component left (empty when there is none);
  \<open>stem\<close> is the name cut at its last dot, unless that dot is the first or the last
  character of the name.
\<close>

fun split_slash :: "string \<Rightarrow> string list" where
  "split_slash [] = [[]]"
| "split_slash (c # cs) =
     (if c = CHR ''/'' then [] # split_slash cs
      else (case split_slash cs of [] \<Rightarrow> [[c]] | x # xs \<Rightarrow> (c # x) # xs))"

definition path_parts :: "string \<Rightarrow> string list" where
  "path_parts p = filter (\<lambda>c. c \<noteq> [] \<and> c \<noteq> ''.'') (split_slash p)"

definition path_name :: "string \<Rightarrow> string" where
  "path_name p = (case rev (path_parts p) of [] \<Rightarrow> [] | n # _ \<Rightarrow> n)"

fun rfind :: "char \<Rightarrow> string \<Rightarrow> nat option" where
  "rfind d [] = None"
| "rfind d (c # cs) =
     (case rfind d cs of
        Some i \<Rightarrow> Some (Suc i)
      | None \<Rightarrow> if c = d then Some 0 else None)"

definition path_stem :: "string \<Rightarrow> string" where
  "path_stem p =
     (let n = path_name p in
      case rfind (CHR ''.'') n of
        None \<Rightarrow> n
      | Some i \<Rightarrow> if 0 < i \<and> Suc i < length n then take i n else n)"

text \<open>\<open>os.path.join(a, b)\<close> on a POSIX host.\<close>

definition os_path_join :: "string \<Rightarrow> string \<Rightarrow> string" where
  "os_path_join a b =
     (if startswith b ''/'' then b
      else if a = [] \<or> endswith a ''/'' then a @ b
      else a @ ''/'' @ b)"

text \<open>\<open>str(n)\<close> for an integer: decimal digits, with a minus sign below zero.\<close>

definition digit_char :: "nat \<Rightarrow> char" where
  "digit_char d = ''0123456789'' ! (d mod 10)"

fun str_nat :: "nat \<Rightarrow> string" where
  "str_nat n =
     (if n < 10 then [digit_char n]
      else str_nat (n div 10) @ [digit_char (n mod 10)])"

declare str_nat.simps [simp del]

definition str_int :: "int \<Rightarrow> string" where
  "str_int i = (if i < 0 then CHR ''-'' # str_nat (nat (- i)) else str_nat (nat i))"

section \<open>Output categorizer (sbsrender.py, \<open>_organize_output_files\<close>)\<close>

text \<open>
  The pattern table, in the order the dictionary literal lists it (a Python dictionary
  iterates in insertion order).
\<close>

definition patterns :: "(string \<times> string list) list" where
  "patterns =
     [(''diffuse'', [''diffuse'', ''albedo'', ''basecolor'', ''color'']),
      (''normal'', [''normal'', ''normalmap'']),
      (''roughness'', [''roughness'', ''rough'']),
      (''metallic'', [''metallic'', ''metal'']),
      (''height'', [''height'', ''displacement'', ''disp'']),
      (''ambient_occlusion'', [''ao'', ''ambient'', ''occlusion'']),
      (''emission'', [''emission'', ''emissive'']),
      (''opacity'', [''opacity'', ''alpha'', ''transparency''])]"

text \<open>The initial \<open>organized\<close> dictionary: the nine categories, each with an empty list.\<close>

definition organized_init :: "(string \<times> string list) list" where
  "organized_init =
     [(''diffuse'', []), (''normal'', []), (''roughness'', []), (''metallic'', []),
      (''height'', []), (''ambient_occlusion'', []), (''emission'', []),
      (''opacity'', []), (''other'', [])]"

text \<open>
  The inner loop over one category's patterns: true at the first pattern found in the
  file name (the loop's \<open>break\<close>).
\<close>

fun match_patterns :: "string list \<Rightarrow> string \<Rightarrow> bool" where
  "match_patterns [] filename = False"
| "match_patterns (pattern # rest) filename =
     (if re_search pattern filename then True else match_patterns rest filename)"

text \<open>
  The outer loop over the table: the first category with a matching pattern, or \<open>None\<close>
  when the loop ends with \<open>categorized\<close> still false.
\<close>

fun match_category :: "(string \<times> string list) list \<Rightarrow> string \<Rightarrow> string option" where
  "match_category [] filename = None"
| "match_category ((category, category_patterns) # rest) filename =
     (if match_patterns category_patterns filename then Some category
      else match_category rest filename)"

text \<open>The category one file is filed under: the body of the loop over \<open>output_files\<close>.\<close>

definition categorize :: "string \<Rightarrow> string" where
  "categorize file_path =
     (let filename = lower (path_stem file_path) in
      case match_category patterns filename of
        Some category \<Rightarrow> category
      | None \<Rightarrow> ''other'')"

text \<open>\<open>organized[category].append(file_path)\<close> on the dictionary as an association list.\<close>

fun dict_append :: "string \<Rightarrow> string \<Rightarrow> (string \<times> string list) list \<Rightarrow> (string \<times> string list) list" where
  "dict_append k v [] = []"
| "dict_append k v ((k', vs) # rest) =
     (if k' = k then (k', vs @ [v]) # rest else (k', vs) # dict_append k v rest)"

fun organize_loop :: "string list \<Rightarrow> (string \<times> string list) list \<Rightarrow> (string \<times> string list) list" where
  "organize_loop [] organized = organized"
| "organize_loop (file_path # rest) organized =
     organize_loop rest (dict_append (categorize file_path) file_path organized)"

text \<open>The whole function: fill the dictionary, then drop the empty categories.\<close>

definition organize_output_files :: "string list \<Rightarrow> (string \<times> string list) list" where
  "organize_output_files output_files =
     filter (\<lambda>(k, v). v \<noteq> []) (organize_loop output_files organized_init)"

section \<open>The operating system and the external tools\<close>

text \<open>
  The code talks to the file system and to two external executables. Both are
  parameters of the model: \<open>'fs\<close> is the state of the file system, and an \<open>os_env\<close>
  gives the behaviour of the library calls the code makes on it.
  \<^item> \<open>os_resolve\<close>: \<open>str(Path(p).resolve())\<close>, the normalised absolute path;
  \<^item> \<open>os_exists\<close>: \<open>os.path.exists\<close> and \<open>Path.exists\<close>;
  \<^item> \<open>os_listdir\<close>: \<open>os.listdir\<close>, \<open>Inl\<close> the message of the \<open>OSError\<close> it raises;
  \<^item> \<open>os_makedirs\<close>: \<open>Path.mkdir(parents=True, exist_ok=True)\<close> and
    \<open>os.makedirs(exist_ok=True)\<close>, \<open>Inl\<close> the message of the \<open>OSError\<close> it raises;
  \<^item> \<open>os_run\<close>: \<open>subprocess.run(cmd, timeout=...)\<close>: how the call ends, and the file
    system the child process leaves behind;
  \<^item> \<open>os_isdir\<close>, \<open>os_isfile\<close>, \<open>os_access_x\<close>, \<open>os_glob\<close>, \<open>os_expanduser\<close>,
    \<open>os_abspath\<close>: \<open>os.path.isdir\<close>, \<open>os.path.isfile\<close>, \<open>os.access(p, os.X_OK)\<close>,
    \<open>glob.glob\<close>, \<open>os.path.expanduser\<close>, \<open>os.path.abspath\<close>;
  \<^item> \<open>os_find_tool\<close>: the path \<open>_find_tool_path\<close> finds for a tool name (the search
    path first, then the installation directories), \<open>None\<close> when it finds none.
\<close>

datatype proc_outcome =
    Completed int string string
  | TimeoutExpired
  | FileNotFound
  | OtherFailure string

record 'fs os_env =
  os_resolve :: "'fs \<Rightarrow> string \<Rightarrow> string"
  os_exists :: "'fs \<Rightarrow> string \<Rightarrow> bool"
  os_listdir :: "'fs \<Rightarrow> string \<Rightarrow> string + string list"
  os_makedirs :: "'fs \<Rightarrow> string \<Rightarrow> string + 'fs"
  os_run :: "'fs \<Rightarrow> string list \<Rightarrow> int option \<Rightarrow> proc_outcome \<times> 'fs"
  os_isdir :: "'fs \<Rightarrow> string \<Rightarrow> bool"
  os_isfile :: "'fs \<Rightarrow> string \<Rightarrow> bool"
  os_access_x :: "'fs \<Rightarrow> string \<Rightarrow> bool"
  os_glob :: "'fs \<Rightarrow> string \<Rightarrow> string list"
  os_find_tool :: "'fs \<Rightarrow> string \<Rightarrow> string option"
  os_expanduser :: "string \<Rightarrow> string"
  os_abspath :: "string \<Rightarrow> string"

text \<open>
  The state the code runs in: the file system, and the log of every command line handed
  to \<open>subprocess.run\<close>, oldest first. The log is what a spy on the command runner sees.
\<close>

record 'fs world =
  files :: 'fs
  spawned :: "string list list"

text \<open>The exceptions the code raises, each with its message (\<open>str(e)\<close>).\<close>

datatype exn =
    SubstanceToolError string
  | ValueError string
  | RuntimeError string
  | OSError string
  | Exception string

fun exn_str :: "exn \<Rightarrow> string" where
  "exn_str (SubstanceToolError m) = m"
| "exn_str (ValueError m) = m"
| "exn_str (RuntimeError m) = m"
| "exn_str (OSError m) = m"
| "exn_str (Exception m) = m"

record completed_process =
  returncode :: int
  stdout :: string
  stderr :: string

section \<open>Command runner (utils/__init__.py, \<open>_run_command\<close>)\<close>

text \<open>
  What the \<open>try\<close> block raises. The \<open>SubstanceToolError\<close> it raises itself on a
  non-zero return code is an \<open>Exception\<close> like any other, so the last handler catches
  it too.
\<close>

datatype raised = RaisedTimeout | RaisedFileNotFound | RaisedOther string

definition str_timeout :: "int option \<Rightarrow> string" where
  "str_timeout t = (case t of None \<Rightarrow> ''None'' | Some n \<Rightarrow> str_int n)"

definition run_command_try ::
  "'fs os_env \<Rightarrow> string \<Rightarrow> string list \<Rightarrow> int option \<Rightarrow> 'fs world
     \<Rightarrow> (raised + completed_process) \<times> 'fs world" where
  "run_command_try os tool_path args timeout w =
     (let cmd = tool_path # args;
          (outcome, fs') = os_run os (files w) cmd timeout;
          w' = \<lparr>files = fs', spawned = spawned w @ [cmd]\<rparr>
      in case outcome of
           Completed rc out err \<Rightarrow>
             if rc \<noteq> 0 then
               (Inl (RaisedOther (''Command failed with return code '' @ str_int rc
                        @ (if err \<noteq> [] then '': '' @ err else []))), w')
             else (Inr \<lparr>returncode = rc, stdout = out, stderr = err\<rparr>, w')
         | TimeoutExpired \<Rightarrow> (Inl RaisedTimeout, w')
         | FileNotFound \<Rightarrow> (Inl RaisedFileNotFound, w')
         | OtherFailure msg \<Rightarrow> (Inl (RaisedOther msg), w'))"

definition run_command ::
  "'fs os_env \<Rightarrow> string \<Rightarrow> string list \<Rightarrow> int option \<Rightarrow> 'fs world
     \<Rightarrow> (exn + completed_process) \<times> 'fs world" where
  "run_command os tool_path args timeout w =
     (case run_command_try os tool_path args timeout w of
        (Inr result, w') \<Rightarrow> (Inr result, w')
      | (Inl RaisedTimeout, w') \<Rightarrow>
          (Inl (SubstanceToolError
                  (''Command timed out after '' @ str_timeout timeout @ '' seconds'')), w')
      | (Inl RaisedFileNotFound, w') \<Rightarrow>
          (Inl (SubstanceToolError (''Tool not found: '' @ tool_path)), w')
      | (Inl (RaisedOther msg), w') \<Rightarrow>
          (Inl (SubstanceToolError (''Command execution failed: '' @ msg)), w'))"

text \<open>\<open>_validate_file_path\<close> and \<open>_ensure_directory\<close>.\<close>

definition validate_file_path ::
  "'fs os_env \<Rightarrow> 'fs world \<Rightarrow> string \<Rightarrow> bool \<Rightarrow> exn + string" where
  "validate_file_path os w file_path must_exist =
     (if file_path = [] then Inl (SubstanceToolError ''File path cannot be empty'')
      else
        (let path = os_resolve os (files w) file_path in
         if must_exist \<and> \<not> os_exists os (files w) path
         then Inl (SubstanceToolError (''File does not exist: '' @ path))
         else Inr path))"

definition ensure_directory ::
  "'fs os_env \<Rightarrow> 'fs world \<Rightarrow> string \<Rightarrow> (exn + string) \<times> 'fs world" where
  "ensure_directory os w dir_path =
     (let path = os_resolve os (files w) dir_path in
      case os_makedirs os (files w) path of
        Inl msg \<Rightarrow> (Inl (OSError msg), w)
      | Inr fs' \<Rightarrow> (Inr path, w\<lparr>files := fs'\<rparr>))"

text \<open>
  The \<open>**kwargs\<close> loop shared by \<open>cook\<close> and \<open>render\<close>: a boolean becomes a bare flag
  when true, any other value a flag followed by \<open>str(value)\<close> (kept here as the string).
\<close>

datatype kwarg = KwBool bool | KwOther string

definition flag_name :: "string \<Rightarrow> string" where
  "flag_name key = ''--'' @ map (\<lambda>c. if c = CHR ''_'' then CHR ''-'' else c) key"

fun kwargs_args :: "(string \<times> kwarg) list \<Rightarrow> string list" where
  "kwargs_args [] = []"
| "kwargs_args ((key, KwBool b) # rest) =
     (if b then [flag_name key] else []) @ kwargs_args rest"
| "kwargs_args ((key, KwOther v) # rest) = [flag_name key, v] @ kwargs_args rest"

text \<open>Truth of an optional string (\<open>if output_name:\<close>): present and not empty.\<close>

definition truthy :: "string option \<Rightarrow> bool" where
  "truthy s = (case s of None \<Rightarrow> False | Some v \<Rightarrow> v \<noteq> [])"

definition opt_flag :: "string \<Rightarrow> string option \<Rightarrow> string list" where
  "opt_flag flag s = (case s of None \<Rightarrow> [] | Some v \<Rightarrow> if v \<noteq> [] then [flag, v] else [])"

section \<open>Cooker adapter (utils/sbscooker.py, \<open>cook\<close>)\<close>

record cook_request =
  c_input_files :: "string list"
  c_output_path :: string
  c_output_name :: "string option"
  c_merge :: bool
  c_enable_icons :: bool
  c_no_archive :: bool
  c_optimization_level :: int
  c_verbose :: bool
  c_kwargs :: "(string \<times> kwarg) list"

record cook_result =
  cook_success :: bool
  cook_output_files :: "string list"
  cook_output_directory :: string
  cook_command_output :: string
  cook_command_args :: "string list"
  cook_input_files :: "string list"

text \<open>The validation loop: the first bad input raises.\<close>

fun validate_inputs :: "'fs os_env \<Rightarrow> 'fs world \<Rightarrow> string list \<Rightarrow> exn + string list" where
  "validate_inputs os w [] = Inr []"
| "validate_inputs os w (input_file # rest) =
     (case validate_file_path os w input_file True of
        Inl e \<Rightarrow> Inl e
      | Inr validated_path \<Rightarrow>
          if \<not> endswith (lower validated_path) ''.sbs''
          then Inl (SubstanceToolError (''Input file must be .sbs format: '' @ input_file))
          else (case validate_inputs os w rest of
                  Inl e \<Rightarrow> Inl e
                | Inr validated \<Rightarrow> Inr (validated_path # validated)))"

text \<open>The \<open>if\<close>/\<open>elif\<close> chain on \<open>optimization_level\<close>; no branch for any other level.\<close>

definition optimization_args :: "int \<Rightarrow> string list" where
  "optimization_args level =
     (if level = 0 then [''--crc'', ''1'', ''--full'', ''0'']
      else if level = 1 then [''--full'', ''1'']
      else if level = 2 then [''--full'', ''1'', ''--merge-graph'', ''1'']
      else if level = 3 then
        [''--full'', ''1'', ''--merge-graph'', ''1'', ''--merge-data'', ''1'',
         ''--reordering'', ''1'']
      else [])"

definition cook_args :: "cook_request \<Rightarrow> string list \<Rightarrow> string \<Rightarrow> string list" where
  "cook_args req validated_inputs output_dir =
     [''cook'']
     @ ([''--inputs''] @ validated_inputs)
     @ [''--output-path'', output_dir]
     @ opt_flag ''--output-name'' (c_output_name req)
     @ (if c_merge req then [''--merge''] else [])
     @ (if c_enable_icons req then [''--enable-icons''] else [])
     @ (if c_no_archive req then [''--no-archive''] else [])
     @ optimization_args (c_optimization_level req)
     @ (if c_verbose req then [''--verbose''] else [''--quiet''])
     @ kwargs_args (c_kwargs req)"

text \<open>
  The loop that looks for one archive per input file, named after \<open>output_name\<close> when
  it is set and after the input's stem otherwise.
\<close>

fun probe_inputs :: "'fs os_env \<Rightarrow> 'fs \<Rightarrow> string option \<Rightarrow> string \<Rightarrow> string list \<Rightarrow> string list" where
  "probe_inputs os fs output_name output_dir [] = []"
| "probe_inputs os fs output_name output_dir (input_file # rest) =
     (let base_name = (if truthy output_name then the output_name else path_stem input_file);
          output_file = os_path_join output_dir (base_name @ ''.sbsar'')
      in (if os_exists os fs output_file then [output_file] else [])
         @ probe_inputs os fs output_name output_dir rest)"

definition determine_output_files ::
  "'fs os_env \<Rightarrow> 'fs \<Rightarrow> cook_request \<Rightarrow> string list \<Rightarrow> string \<Rightarrow> string list" where
  "determine_output_files os fs req validated_inputs output_dir =
     (if c_merge req \<and> truthy (c_output_name req) then
        (let output_file = os_path_join output_dir (the (c_output_name req) @ ''.sbsar'')
         in if os_exists os fs output_file then [output_file] else [])
      else probe_inputs os fs (c_output_name req) output_dir validated_inputs)"

definition cook ::
  "'fs os_env \<Rightarrow> string \<Rightarrow> cook_request \<Rightarrow> 'fs world \<Rightarrow> (exn + cook_result) \<times> 'fs world" where
  "cook os tool_path req w =
     (case validate_inputs os w (c_input_files req) of
        Inl e \<Rightarrow> (Inl e, w)
      | Inr validated_inputs \<Rightarrow>
          (case ensure_directory os w (c_output_path req) of
             (Inl e, w1) \<Rightarrow> (Inl e, w1)
           | (Inr output_dir, w1) \<Rightarrow>
               (let args = cook_args req validated_inputs output_dir in
                case run_command os tool_path args (Some 300) w1 of
                  (Inl e, w2) \<Rightarrow> (Inl e, w2)
                | (Inr result, w2) \<Rightarrow>
                    (Inr \<lparr>cook_success = True,
                          cook_output_files =
                            determine_output_files os (files w2) req validated_inputs output_dir,
                          cook_output_directory = output_dir,
                          cook_command_output = stdout result,
                          cook_command_args = args,
                          cook_input_files = validated_inputs\<rparr>, w2))))"

section \<open>Renderer adapter (utils/sbsrender.py, \<open>render\<close>)\<close>

text \<open>
  The two dictionaries of a request are association lists in insertion order, \<open>None\<close>
  when the argument is left out. A parameter's value is kept as the text \<open>str(value)\<close>
  that the f-string writes.
\<close>

record render_request =
  r_sbsar_file :: string
  r_output_path :: string
  r_output_format :: string
  r_output_name :: "string option"
  r_bit_depth :: string
  r_resolution :: "int option"
  r_graph_selection :: "string option"
  r_output_selection :: "string option"
  r_parameters :: "(string \<times> string) list option"
  r_image_entries :: "(string \<times> string) list option"
  r_preset_name :: "string option"
  r_cpu_count :: "int option"
  r_memory_budget :: "int option"
  r_verbose :: bool
  r_kwargs :: "(string \<times> kwarg) list"

record render_result =
  render_success :: bool
  render_output_files :: "string list"
  render_organized_outputs :: "(string \<times> string list) list"
  render_output_directory :: string
  render_command_output :: string
  render_command_args :: "string list"
  render_input_file :: string
  render_format :: string
  render_bit_depth :: string

fun set_value_args :: "(string \<times> string) list \<Rightarrow> string list" where
  "set_value_args [] = []"
| "set_value_args ((param_name, param_value) # rest) =
     [''--set-value'', param_name @ ''@'' @ param_value] @ set_value_args rest"

text \<open>The loop over \<open>image_entries\<close>: the first path that does not exist raises.\<close>

fun set_entry_args :: "'fs os_env \<Rightarrow> 'fs \<Rightarrow> (string \<times> string) list \<Rightarrow> exn + string list" where
  "set_entry_args os fs [] = Inr []"
| "set_entry_args os fs ((param_name, image_path) # rest) =
     (if \<not> os_exists os fs image_path
      then Inl (SubstanceToolError (''Image entry file not found: '' @ image_path))
      else (case set_entry_args os fs rest of
              Inl e \<Rightarrow> Inl e
            | Inr args \<Rightarrow> Inr ([''--set-entry'', param_name @ ''@'' @ image_path] @ args)))"

text \<open>Truth of an optional integer (\<open>if cpu_count:\<close>): present and not zero.\<close>

definition int_flag :: "string \<Rightarrow> int option \<Rightarrow> string list" where
  "int_flag flag n = (case n of None \<Rightarrow> [] | Some v \<Rightarrow> if v \<noteq> 0 then [flag, str_int v] else [])"

definition render_args ::
  "'fs os_env \<Rightarrow> 'fs \<Rightarrow> render_request \<Rightarrow> string \<Rightarrow> string \<Rightarrow> exn + string list" where
  "render_args os fs req validated_sbsar output_dir =
     (case set_entry_args os fs (case r_image_entries req of None \<Rightarrow> [] | Some es \<Rightarrow> es) of
        Inl e \<Rightarrow> Inl e
      | Inr entry_args \<Rightarrow>
          Inr ([''render'']
               @ [''--input'', validated_sbsar]
               @ [''--output-path'', output_dir]
               @ [''--output-format'', r_output_format req]
               @ opt_flag ''--output-name'' (r_output_name req)
               @ (if r_bit_depth req \<noteq> [] then [''--output-bit-depth'', r_bit_depth req] else [])
               @ opt_flag ''--input-graph'' (r_graph_selection req)
               @ opt_flag ''--input-graph-output'' (r_output_selection req)
               @ set_value_args (case r_parameters req of None \<Rightarrow> [] | Some ps \<Rightarrow> ps)
               @ entry_args
               @ opt_flag ''--use-preset'' (r_preset_name req)
               @ int_flag ''--cpu-count'' (r_cpu_count req)
               @ int_flag ''--memory-budget'' (r_memory_budget req)
               @ (case r_resolution req of
                    None \<Rightarrow> []
                  | Some n \<Rightarrow>
                      if n \<noteq> 0 then [''--output-size'', str_int n @ '','' @ str_int n] else [])
               @ (if r_verbose req then [''--verbose''] else [''--quiet''])
               @ kwargs_args (r_kwargs req)))"

text \<open>
  Output discovery: every entry of the output directory whose lower-cased name ends with
  a dot and the lower-cased format, joined to the directory, in listing order.
\<close>

definition has_format :: "string \<Rightarrow> string \<Rightarrow> bool" where
  "has_format output_format file \<longleftrightarrow> endswith (lower file) (''.'' @ lower output_format)"

fun collect_outputs :: "string \<Rightarrow> string \<Rightarrow> string list \<Rightarrow> string list" where
  "collect_outputs output_dir output_format [] = []"
| "collect_outputs output_dir output_format (file # rest) =
     (if has_format output_format file then [os_path_join output_dir file] else [])
     @ collect_outputs output_dir output_format rest"

definition find_output_files ::
  "'fs os_env \<Rightarrow> 'fs \<Rightarrow> string \<Rightarrow> string \<Rightarrow> exn + string list" where
  "find_output_files os fs output_dir output_format =
     (if os_exists os fs output_dir then
        (case os_listdir os fs output_dir of
           Inl msg \<Rightarrow> Inl (OSError msg)
         | Inr listing \<Rightarrow> Inr (collect_outputs output_dir output_format listing))
      else Inr [])"

definition render ::
  "'fs os_env \<Rightarrow> string \<Rightarrow> render_request \<Rightarrow> 'fs world \<Rightarrow> (exn + render_result) \<times> 'fs world" where
  "render os tool_path req w =
     (case validate_file_path os w (r_sbsar_file req) True of
        Inl e \<Rightarrow> (Inl e, w)
      | Inr validated_sbsar \<Rightarrow>
          if \<not> endswith (lower validated_sbsar) ''.sbsar''
          then (Inl (SubstanceToolError
                       (''Input file must be .sbsar format: '' @ r_sbsar_file req)), w)
          else
            (case ensure_directory os w (r_output_path req) of
               (Inl e, w1) \<Rightarrow> (Inl e, w1)
             | (Inr output_dir, w1) \<Rightarrow>
                 (case render_args os (files w1) req validated_sbsar output_dir of
                    Inl e \<Rightarrow> (Inl e, w1)
                  | Inr args \<Rightarrow>
                      (case run_command os tool_path args (Some 600) w1 of
                         (Inl e, w2) \<Rightarrow> (Inl e, w2)
                       | (Inr result, w2) \<Rightarrow>
                           (case find_output_files os (files w2) output_dir
                                   (r_output_format req) of
                              Inl e \<Rightarrow> (Inl e, w2)
                            | Inr output_files \<Rightarrow>
                                (Inr \<lparr>render_success = True,
                                      render_output_files = output_files,
                                      render_organized_outputs =
                                        organize_output_files output_files,
                                      render_output_directory = output_dir,
                                      render_command_output = stdout result,
                                      render_command_args = args,
                                      render_input_file = validated_sbsar,
                                      render_format = r_output_format req,
                                      render_bit_depth = r_bit_depth req\<rparr>, w2))))))"

section \<open>Image bridge (utils/image_utils.py)\<close>

text \<open>
  A tensor is its shape and its elements in row-major order. The elements are real
  numbers: the rounding of 32-bit floats is not modelled. An image file opened by the
  imaging library is its mode, its size, the number of bands and the samples that
  \<open>np.array(image)\<close> reads, row by row. The imaging library is a parameter:
  \<open>pil_open\<close> is \<open>Image.open\<close>, \<open>pil_convert\<close> is \<open>image.convert(mode)\<close>, each
  \<open>Inl\<close> the text of the exception it raises, and \<open>pil_save\<close> is
  \<open>Image.fromarray(array, mode='RGB')\<close> followed by \<open>image.save\<close>.
\<close>

record tensor =
  t_shape :: "nat list"
  t_data :: "real list"

record pil_image =
  img_mode :: string
  img_height :: nat
  img_width :: nat
  img_bands :: nat
  img_samples :: "nat list"

record 'fs pil_env =
  pil_open :: "'fs \<Rightarrow> string \<Rightarrow> string + pil_image"
  pil_convert :: "pil_image \<Rightarrow> string \<Rightarrow> string + pil_image"
  pil_save :: "'fs \<Rightarrow> nat list \<Rightarrow> nat list \<Rightarrow> string \<Rightarrow> string \<Rightarrow> (string \<times> string) list
                 \<Rightarrow> string + 'fs"

text \<open>\<open>np.array(image, dtype=np.float32)\<close>: height by width by bands.\<close>

definition np_array :: "pil_image \<Rightarrow> tensor" where
  "np_array img =
     \<lparr>t_shape = [img_height img, img_width img]
                 @ (if img_bands img = 1 then [] else [img_bands img]),
      t_data = map real (img_samples img)\<rparr>"

definition load_image_as_tensor ::
  "'fs pil_env \<Rightarrow> 'fs os_env \<Rightarrow> 'fs \<Rightarrow> string \<Rightarrow> exn + tensor" where
  "load_image_as_tensor pil os fs image_path =
     (if \<not> os_exists os fs image_path
      then Inl (ValueError (''Image file does not exist: '' @ image_path))
      else
        (case pil_open pil fs image_path of
           Inl msg \<Rightarrow> Inl (ValueError (''Failed to load image '' @ image_path @ '': '' @ msg))
         | Inr img \<Rightarrow>
             (case (if img_mode img \<noteq> ''RGB'' then pil_convert pil img ''RGB''
                    else Inr img) of
                Inl msg \<Rightarrow>
                  Inl (ValueError (''Failed to load image '' @ image_path @ '': '' @ msg))
              | Inr img' \<Rightarrow>
                  (let image_array = np_array img';
                       image_array = image_array\<lparr>t_data := map (\<lambda>v. v / 255) (t_data image_array)\<rparr>;
                       tensor = image_array\<lparr>t_shape := 1 # t_shape image_array\<rparr>
                   in Inr tensor))))"

text \<open>\<open>tensor.shape[1:3]\<close> and its text in the error message.\<close>

definition shape_1_3 :: "tensor \<Rightarrow> nat list" where
  "shape_1_3 t = take 2 (drop 1 (t_shape t))"

fun comma_sep :: "string list \<Rightarrow> string" where
  "comma_sep [] = []"
| "comma_sep [x] = x"
| "comma_sep (x # y # rest) = x @ '', '' @ comma_sep (y # rest)"

definition str_size :: "nat list \<Rightarrow> string" where
  "str_size sz = ''torch.Size(['' @ comma_sep (map str_nat sz) @ ''])''"

text \<open>
  \<open>torch.cat(tensors, dim=0)\<close>: the shapes must agree after the first dimension;
  otherwise the library raises a \<open>RuntimeError\<close> (its text is the library's own).
\<close>

definition torch_cat :: "tensor list \<Rightarrow> exn + tensor" where
  "torch_cat ts =
     (case ts of
        [] \<Rightarrow> Inl (RuntimeError ''torch.cat(): expected a non-empty list of Tensors'')
      | t # rest \<Rightarrow>
          if list_all (\<lambda>u. t_shape u \<noteq> [] \<and> tl (t_shape u) = tl (t_shape t)) ts
          then Inr \<lparr>t_shape = sum_list (map (\<lambda>u. hd (t_shape u)) ts) # tl (t_shape t),
                    t_data = concat (map t_data ts)\<rparr>
          else Inl (RuntimeError ''Sizes of tensors must match except in dimension 0''))"

text \<open>The loop of \<open>load_images_as_batch\<close>, with \<open>reference_size\<close> and \<open>tensors\<close>.\<close>

fun load_loop ::
  "'fs pil_env \<Rightarrow> 'fs os_env \<Rightarrow> 'fs \<Rightarrow> string list \<Rightarrow> nat list option \<Rightarrow> tensor list
     \<Rightarrow> exn + tensor list" where
  "load_loop pil os fs [] reference_size tensors = Inr tensors"
| "load_loop pil os fs (path # rest) reference_size tensors =
     (case load_image_as_tensor pil os fs path of
        Inl e \<Rightarrow> Inl e
      | Inr tensor \<Rightarrow>
          (case reference_size of
             None \<Rightarrow> load_loop pil os fs rest (Some (shape_1_3 tensor)) (tensors @ [tensor])
           | Some expected \<Rightarrow>
               if shape_1_3 tensor \<noteq> expected
               then Inl (ValueError (''Image size mismatch: expected '' @ str_size expected
                           @ '', got '' @ str_size (shape_1_3 tensor) @ '' for '' @ path))
               else load_loop pil os fs rest reference_size (tensors @ [tensor])))"

definition load_images_as_batch ::
  "'fs pil_env \<Rightarrow> 'fs os_env \<Rightarrow> 'fs \<Rightarrow> string list \<Rightarrow> exn + tensor" where
  "load_images_as_batch pil os fs image_paths =
     (if image_paths = [] then Inl (ValueError ''No image paths provided'')
      else (case load_loop pil os fs image_paths None [] of
              Inl e \<Rightarrow> Inl e
            | Inr tensors \<Rightarrow> torch_cat tensors))"

text \<open>\<open>os.path.dirname\<close> on a POSIX host, and \<open>str.upper\<close> on ASCII text.\<close>

definition os_path_dirname :: "string \<Rightarrow> string" where
  "os_path_dirname p =
     (case rfind (CHR ''/'') p of
        None \<Rightarrow> []
      | Some i \<Rightarrow>
          (let head = take (Suc i) p in
           if list_all (\<lambda>c. c = CHR ''/'') head then head
           else rev (dropWhile (\<lambda>c. c = CHR ''/'') (rev head))))"

definition upper_char :: "char \<Rightarrow> char" where
  "upper_char c =
     (case map_of (zip ''abcdefghijklmnopqrstuvwxyz'' ''ABCDEFGHIJKLMNOPQRSTUVWXYZ'') c of
        Some u \<Rightarrow> u
      | None \<Rightarrow> c)"

definition upper :: "string \<Rightarrow> string" where
  "upper s = map upper_char s"

text \<open>
  \<open>save_tensor_as_image\<close>. After the shape checks: clamp to \<open>[0, 1]\<close>, scale by 255 and
  cut to an 8-bit sample, create the directory of the output path, and hand the array to
  the imaging library.
\<close>

definition to_uint8 :: "real \<Rightarrow> nat" where
  "to_uint8 v = nat \<lfloor>max 0 (min 1 v) * 255\<rfloor>"

definition save_kwargs :: "string \<Rightarrow> int \<Rightarrow> (string \<times> string) list" where
  "save_kwargs format quality =
     (if upper format = ''JPEG'' then [(''quality'', str_int quality), (''optimize'', ''True'')]
      else if upper format = ''PNG'' then [(''optimize'', ''True'')]
      else [])"

definition save_tensor_as_image ::
  "'fs pil_env \<Rightarrow> 'fs os_env \<Rightarrow> 'fs \<Rightarrow> tensor \<Rightarrow> string \<Rightarrow> string \<Rightarrow> int \<Rightarrow> exn + 'fs" where
  "save_tensor_as_image pil os fs tensor output_path format quality =
     (let dim = length (t_shape tensor) in
      if dim = 4 \<and> hd (t_shape tensor) \<noteq> 1 then
        Inl (ValueError (''Expected single image, got batch size ''
                           @ str_nat (hd (t_shape tensor))))
      else if dim \<noteq> 4 \<and> dim \<noteq> 3 then
        Inl (ValueError (''Expected 3D or 4D tensor, got '' @ str_nat dim @ ''D''))
      else
        (let tensor = (if dim = 4 then tensor\<lparr>t_shape := tl (t_shape tensor)\<rparr> else tensor);
             image_array = map to_uint8 (t_data tensor)
         in case os_makedirs os fs (os_path_dirname output_path) of
              Inl msg \<Rightarrow> Inl (OSError msg)
            | Inr fs1 \<Rightarrow>
                (case pil_save pil fs1 (t_shape tensor) image_array output_path
                        (upper format) (save_kwargs format quality) of
                   Inl msg \<Rightarrow> Inl (Exception msg)
                 | Inr fs2 \<Rightarrow> Inr fs2)))"

section \<open>Batch processor (nodes/substance_batch_processor.py)\<close>

text \<open>
  \<open>SubstanceToolBase.__init__\<close>: find the executable, check it, and run it once with
  \<open>--version\<close>; whatever that run raises is logged and dropped.
\<close>

definition init_tool ::
  "'fs os_env \<Rightarrow> string \<Rightarrow> 'fs world \<Rightarrow> (exn + string) \<times> 'fs world" where
  "init_tool os tool_name w =
     (case os_find_tool os (files w) tool_name of
        None \<Rightarrow>
          (Inl (SubstanceToolError (''Could not find '' @ tool_name
                  @ ''. Please ensure Substance 3D Automation Toolkit is installed.'')), w)
      | Some tool_path \<Rightarrow>
          if \<not> os_isfile os (files w) tool_path
          then (Inl (SubstanceToolError (''Tool not found at path: '' @ tool_path)), w)
          else if \<not> os_access_x os (files w) tool_path
          then (Inl (SubstanceToolError (''Tool is not executable: '' @ tool_path)), w)
          else (case run_command os tool_path [''--version''] None w of
                  (r, w') \<Rightarrow> (Inr tool_path, w')))"

text \<open>The keyword defaults of \<open>cook\<close> and \<open>render\<close>.\<close>

definition cook_defaults :: cook_request where
  "cook_defaults =
     \<lparr>c_input_files = [], c_output_path = [], c_output_name = None, c_merge = False,
      c_enable_icons = True, c_no_archive = False, c_optimization_level = 1,
      c_verbose = False, c_kwargs = []\<rparr>"

definition render_defaults :: render_request where
  "render_defaults =
     \<lparr>r_sbsar_file = [], r_output_path = [], r_output_format = ''png'',
      r_output_name = None, r_bit_depth = ''8'', r_resolution = None,
      r_graph_selection = None, r_output_selection = None, r_parameters = None,
      r_image_entries = None, r_preset_name = None, r_cpu_count = None,
      r_memory_budget = None, r_verbose = False, r_kwargs = []\<rparr>"

text \<open>The result dictionary of \<open>_process_single_file\<close>.\<close>

record unit_result =
  u_input_file :: string
  u_material_name :: string
  u_parameter_index :: nat
  u_parameters :: "(string \<times> string) list"
  u_output_directory :: string
  u_cooked_file :: "string option"
  u_rendered_files :: "string list"
  u_success :: bool
  u_error :: "string option"

text \<open>\<open>f"{param_index:03d}"\<close>: at least three digits, padded with zeros.\<close>

definition zfill3 :: "nat \<Rightarrow> string" where
  "zfill3 n = replicate (3 - length (str_nat n)) (CHR ''0'') @ str_nat n"

definition cooking_mode :: "string \<Rightarrow> bool" where
  "cooking_mode operation_mode \<longleftrightarrow>
     operation_mode = ''cook_only'' \<or> operation_mode = ''cook_and_render''"

definition rendering_mode :: "string \<Rightarrow> bool" where
  "rendering_mode operation_mode \<longleftrightarrow>
     operation_mode = ''render_only'' \<or> operation_mode = ''cook_and_render''"

text \<open>
  The cooking phase inside the \<open>try\<close>: \<open>Inr None\<close> when the phase is skipped,
  \<open>Inr (Some f)\<close> with the first archive cooked, \<open>Inl\<close> what the phase raises.
\<close>

definition cooking_phase ::
  "'fs os_env \<Rightarrow> string \<Rightarrow> string option \<Rightarrow> string \<Rightarrow> string \<Rightarrow> int \<Rightarrow> bool \<Rightarrow> 'fs world
     \<Rightarrow> (exn + string option) \<times> 'fs world" where
  "cooking_phase os operation_mode cooker input_file material_output_dir
       optimization_level verbose w =
     (case cooker of
        Some tool_path \<Rightarrow>
          if cooking_mode operation_mode then
            (case cook os tool_path
                    (cook_defaults\<lparr>c_input_files := [input_file],
                                   c_output_path := material_output_dir,
                                   c_optimization_level := optimization_level,
                                   c_verbose := verbose\<rparr>) w of
               (Inl e, w') \<Rightarrow> (Inl e, w')
             | (Inr cook_result, w') \<Rightarrow>
                 (case cook_output_files cook_result of
                    first # others \<Rightarrow>
                      if cook_success cook_result then (Inr (Some first), w')
                      else (Inl (RuntimeError ''Cooking failed''), w')
                  | [] \<Rightarrow> (Inl (RuntimeError ''Cooking failed''), w')))
          else (Inr None, w)
      | None \<Rightarrow> (Inr None, w))"

definition rendering_phase ::
  "'fs os_env \<Rightarrow> string \<Rightarrow> string option \<Rightarrow> string \<Rightarrow> string \<Rightarrow> string \<Rightarrow> string
     \<Rightarrow> (string \<times> string) list \<Rightarrow> bool \<Rightarrow> 'fs world
     \<Rightarrow> (exn + string list option) \<times> 'fs world" where
  "rendering_phase os operation_mode renderer current_file material_output_dir
       output_format bit_depth parameters verbose w =
     (case renderer of
        Some tool_path \<Rightarrow>
          if rendering_mode operation_mode then
            (case render os tool_path
                    (render_defaults\<lparr>r_sbsar_file := current_file,
                                     r_output_path := material_output_dir,
                                     r_output_format := output_format,
                                     r_bit_depth := bit_depth,
                                     r_parameters := Some parameters,
                                     r_verbose := verbose\<rparr>) w of
               (Inl e, w') \<Rightarrow> (Inl e, w')
             | (Inr render_result, w') \<Rightarrow>
                 if render_success render_result
                 then (Inr (Some (render_output_files render_result)), w')
                 else (Inl (RuntimeError ''Rendering failed''), w'))
          else (Inr None, w)
      | None \<Rightarrow> (Inr None, w))"

text \<open>
  \<open>_process_single_file\<close>. Creating the output directory happens before the \<open>try\<close>,
  so its failure is the one exception that leaves the function; whatever the two phases
  raise is caught and stored in the result, which is returned all the same.
\<close>

definition process_single_file ::
  "'fs os_env \<Rightarrow> string \<Rightarrow> string \<Rightarrow> string \<Rightarrow> (string \<times> string) list \<Rightarrow> nat \<Rightarrow> string
     \<Rightarrow> string \<Rightarrow> int \<Rightarrow> bool \<Rightarrow> bool \<Rightarrow> string option \<Rightarrow> string option \<Rightarrow> 'fs world
     \<Rightarrow> (exn + unit_result) \<times> 'fs world" where
  "process_single_file os input_file output_base_dir operation_mode parameters param_index
       output_format bit_depth optimization_level organize_by_material verbose
       cooker renderer w =
     (let material_name = path_stem input_file;
          material_output_dir =
            (if organize_by_material then
               (if parameters \<noteq> [] then
                  os_path_join (os_path_join output_base_dir material_name)
                    (''variation_'' @ zfill3 param_index)
                else os_path_join output_base_dir material_name)
             else output_base_dir)
      in case os_makedirs os (files w) material_output_dir of
           Inl msg \<Rightarrow> (Inl (OSError msg), w)
         | Inr fs1 \<Rightarrow>
             (let result =
                    \<lparr>u_input_file = input_file, u_material_name = material_name,
                     u_parameter_index = param_index, u_parameters = parameters,
                     u_output_directory = material_output_dir, u_cooked_file = None,
                     u_rendered_files = [], u_success = False, u_error = None\<rparr>
              in case cooking_phase os operation_mode cooker input_file material_output_dir
                        optimization_level verbose (w\<lparr>files := fs1\<rparr>) of
                   (Inl e, w2) \<Rightarrow> (Inr (result\<lparr>u_error := Some (exn_str e)\<rparr>), w2)
                 | (Inr cooked, w2) \<Rightarrow>
                     (let current_file = (case cooked of Some f \<Rightarrow> f | None \<Rightarrow> input_file);
                          result = result\<lparr>u_cooked_file := cooked\<rparr>
                      in case rendering_phase os operation_mode renderer current_file
                                material_output_dir output_format bit_depth parameters
                                verbose w2 of
                           (Inl e, w3) \<Rightarrow> (Inr (result\<lparr>u_error := Some (exn_str e)\<rparr>), w3)
                         | (Inr rendered, w3) \<Rightarrow>
                             (Inr (result\<lparr>u_rendered_files :=
                                             (case rendered of Some fs \<Rightarrow> fs | None \<Rightarrow> []),
                                           u_success := True\<rparr>), w3))))"

text \<open>
  \<open>process_batch\<close>. The text of \<open>batch_parameters\<close> is taken as what \<open>strip\<close> and
  \<open>json.loads\<close> make of it: blank, not JSON (with the decoder's message), JSON that is
  not an array, or an array of parameter sets. The four JSON strings the function
  returns are kept as the values \<open>json.dumps\<close> is applied to.
\<close>

datatype batch_parameters =
    Blank
  | BadJson string
  | NotArray
  | ParamSets "(string \<times> string) list list"

record batch_request =
  b_input_directory :: string
  b_output_base_directory :: string
  b_operation_mode :: string
  b_file_pattern :: string
  b_batch_parameters :: batch_parameters
  b_output_format :: string
  b_bit_depth :: string
  b_optimization_level :: int
  b_max_workers :: int
  b_organize_by_material :: bool
  b_verbose :: bool

record batch_summary =
  s_input_directory :: string
  s_output_directory :: string
  s_operation_mode :: string
  s_total_input_files :: nat
  s_parameter_variations :: nat
  s_total_expected_outputs :: nat
  s_successfully_processed :: nat
  s_errors :: nat
  s_success_rate :: string

record batch_output =
  processed_files :: "unit_result list"
  summary :: batch_summary
  error_log :: "string list"
  output_structure :: "(string \<times> unit_result list) list"

text \<open>\<open>str.strip()\<close>: the ASCII characters Python counts as white space.\<close>

definition is_space :: "char \<Rightarrow> bool" where
  "is_space c \<longleftrightarrow>
     c \<in> set [CHR '' '', CHR 0x09, CHR 0x0A, CHR 0x0B, CHR 0x0C, CHR 0x0D,
               CHR 0x1C, CHR 0x1D, CHR 0x1E, CHR 0x1F]"

definition strip :: "string \<Rightarrow> string" where
  "strip s = rev (dropWhile is_space (rev (dropWhile is_space s)))"

definition absolute :: "'fs os_env \<Rightarrow> string \<Rightarrow> string" where
  "absolute os p = (if \<not> startswith p ''/'' then os_abspath os p else p)"

definition parse_parameter_sets :: "batch_parameters \<Rightarrow> exn + (string \<times> string) list list" where
  "parse_parameter_sets bp =
     (case bp of
        Blank \<Rightarrow> Inr []
      | BadJson msg \<Rightarrow> Inl (ValueError (''Invalid JSON in batch parameters: '' @ msg))
      | NotArray \<Rightarrow> Inl (ValueError ''Batch parameters must be a JSON array'')
      | ParamSets sets \<Rightarrow> Inr sets)"

definition filter_by_mode :: "string \<Rightarrow> string list \<Rightarrow> string list" where
  "filter_by_mode operation_mode input_files =
     (if cooking_mode operation_mode then filter (\<lambda>f. endswith (lower f) ''.sbs'') input_files
      else if operation_mode = ''render_only''
      then filter (\<lambda>f. endswith (lower f) ''.sbsar'') input_files
      else input_files)"

text \<open>
  The units of work in the order they are submitted: every input file with every
  parameter set and its index, or with the empty set and index 0 when there are none.
\<close>

definition batch_units ::
  "string list \<Rightarrow> (string \<times> string) list list \<Rightarrow> (string \<times> nat \<times> (string \<times> string) list) list" where
  "batch_units input_files parameter_sets =
     concat (map (\<lambda>input_file.
                    if parameter_sets \<noteq> []
                    then map (\<lambda>(i, params). (input_file, i, params)) (enumerate 0 parameter_sets)
                    else [(input_file, 0, [])])
                 input_files)"

text \<open>\<open>output_structure[material_name].append(result)\<close>, creating the key when new.\<close>

fun structure_append ::
  "string \<Rightarrow> unit_result \<Rightarrow> (string \<times> unit_result list) list \<Rightarrow> (string \<times> unit_result list) list" where
  "structure_append k r [] = [(k, [r])]"
| "structure_append k r ((k', rs) # rest) =
     (if k' = k then (k', rs @ [r]) # rest else (k', rs) # structure_append k r rest)"

text \<open>
  The worker pool, run one unit after the other in submission order: a unit that
  returns a result goes to \<open>processed_files\<close> and \<open>output_structure\<close>, a unit that
  raises goes to \<open>errors\<close>. (The pool runs units concurrently and collects them in
  completion order; the three lengths the summary reads do not depend on that order as
  long as every unit's outcome is the one it has here.)
\<close>

definition run_unit ::
  "'fs os_env \<Rightarrow> batch_request \<Rightarrow> string \<Rightarrow> string option \<Rightarrow> string option
     \<Rightarrow> string \<times> nat \<times> (string \<times> string) list
     \<Rightarrow> unit_result list \<times> string list \<times> (string \<times> unit_result list) list
     \<Rightarrow> 'fs world
     \<Rightarrow> (unit_result list \<times> string list \<times> (string \<times> unit_result list) list) \<times> 'fs world" where
  "run_unit os req output_base_dir cooker renderer u acc w =
     (case (u, acc) of
        ((input_file, param_index, params), (processed, errs, structure)) \<Rightarrow>
          (case process_single_file os input_file output_base_dir (b_operation_mode req)
                  params param_index (b_output_format req) (b_bit_depth req)
                  (b_optimization_level req) (b_organize_by_material req) (b_verbose req)
                  cooker renderer w of
             (Inr result, w') \<Rightarrow>
               ((processed @ [result], errs,
                 structure_append (path_stem input_file) result structure), w')
           | (Inl e, w') \<Rightarrow>
               ((processed,
                 errs @ [''Failed to process '' @ input_file @ '' (params ''
                           @ str_nat param_index @ ''): '' @ exn_str e],
                 structure), w')))"

primrec run_units ::
  "'fs os_env \<Rightarrow> batch_request \<Rightarrow> string \<Rightarrow> string option \<Rightarrow> string option
     \<Rightarrow> (string \<times> nat \<times> (string \<times> string) list) list
     \<Rightarrow> unit_result list \<times> string list \<times> (string \<times> unit_result list) list
     \<Rightarrow> 'fs world
     \<Rightarrow> (unit_result list \<times> string list \<times> (string \<times> unit_result list) list) \<times> 'fs world" where
  "run_units os req output_base_dir cooker renderer [] acc w = (acc, w)"
| "run_units os req output_base_dir cooker renderer (u # rest) acc w =
     (case run_unit os req output_base_dir cooker renderer u acc w of
        (acc', w') \<Rightarrow> run_units os req output_base_dir cooker renderer rest acc' w')"

text \<open>
  Python computes the rate in double precision: \<open>processed / expected\<close> is the double
  nearest to the quotient, its product with 100 is rounded to a double again, and
  \<open>f"{x:.1f}"\<close> prints the decimal with one digit nearest to that double. Both roundings
  go to the nearest value, a tie to the even one. A double is kept as the rational it
  stands for: 53 significant bits, for magnitudes far from overflow and from the
  subnormal range, which is where the rates lie.
\<close>

definition round_half_even :: "rat \<Rightarrow> int" where
  "round_half_even x =
     (let f = \<lfloor>x\<rfloor>; d = x - of_int f in
      if d < 1 / 2 then f else if 1 / 2 < d then f + 1 else if even f then f else f + 1)"

definition pow2 :: "int \<Rightarrow> rat" where
  "pow2 k = (if 0 \<le> k then 2 ^ nat k else 1 / 2 ^ nat (- k))"

function bit_length :: "int \<Rightarrow> int" where
  "bit_length n = (if n \<le> 0 then 0 else 1 + bit_length (n div 2))"
  by pat_completeness auto
termination
  by (relation "measure nat") auto

declare bit_length.simps [simp del]

text \<open>The exponent \<open>e\<close> of a positive rational: \<open>2 ^ e \<le> x < 2 ^ (e + 1)\<close>.\<close>

definition binary_exponent :: "rat \<Rightarrow> int" where
  "binary_exponent x =
     (case quotient_of x of
        (a, b) \<Rightarrow>
          (let d = bit_length a - bit_length b
           in if pow2 d \<le> x then d else d - 1))"

definition to_double :: "rat \<Rightarrow> rat" where
  "to_double x =
     (if x \<le> 0 then 0
      else (let e = binary_exponent x
            in of_int (round_half_even (x * pow2 (52 - e))) * pow2 (e - 52)))"

definition format_rate :: "nat \<Rightarrow> nat \<Rightarrow> string" where
  "format_rate processed expected =
     (let x = to_double (to_double (of_nat processed / of_nat expected) * 100);
          tenths = nat (round_half_even (x * 10))
      in str_nat (tenths div 10) @ ''.'' @ str_nat (tenths mod 10))"

definition make_summary ::
  "string \<Rightarrow> string \<Rightarrow> string \<Rightarrow> string list \<Rightarrow> (string \<times> string) list list
     \<Rightarrow> unit_result list \<Rightarrow> string list \<Rightarrow> batch_summary" where
  "make_summary input_dir output_base_dir mode input_files parameter_sets processed errs =
     (let total_files = length input_files;
          total_variations = (if parameter_sets \<noteq> [] then length parameter_sets else 1);
          total_expected = total_files * total_variations;
          total_processed = length processed;
          total_errors = length errs
      in \<lparr>s_input_directory = input_dir,
          s_output_directory = output_base_dir,
          s_operation_mode = mode,
          s_total_input_files = total_files,
          s_parameter_variations = total_variations,
          s_total_expected_outputs = total_expected,
          s_successfully_processed = total_processed,
          s_errors = total_errors,
          s_success_rate =
            (if 0 < total_expected then format_rate total_processed total_expected @ ''%''
             else ''0%'')\<rparr>)"

text \<open>The two tool objects: each is built only for the modes that use it.\<close>

definition init_tools ::
  "'fs os_env \<Rightarrow> string \<Rightarrow> 'fs world \<Rightarrow> (exn + string option \<times> string option) \<times> 'fs world" where
  "init_tools os mode w =
     (case (if cooking_mode mode
            then (case init_tool os ''sbscooker'' w of
                    (Inl e, w1) \<Rightarrow> (Inl e, w1)
                  | (Inr t, w1) \<Rightarrow> (Inr (Some t), w1))
            else (Inr None, w)) of
        (Inl e, w1) \<Rightarrow> (Inl e, w1)
      | (Inr cooker, w1) \<Rightarrow>
          (case (if rendering_mode mode
                 then (case init_tool os ''sbsrender'' w1 of
                         (Inl e, w2) \<Rightarrow> (Inl e, w2)
                       | (Inr t, w2) \<Rightarrow> (Inr (Some t), w2))
                 else (Inr None, w1)) of
             (Inl e, w2) \<Rightarrow> (Inl e, w2)
           | (Inr renderer, w2) \<Rightarrow> (Inr (cooker, renderer), w2)))"

definition process_batch_body ::
  "'fs os_env \<Rightarrow> batch_request \<Rightarrow> 'fs world \<Rightarrow> (exn + batch_output) \<times> 'fs world" where
  "process_batch_body os req w =
     (if strip (b_input_directory req) = []
      then (Inl (ValueError ''Input directory cannot be empty''), w)
      else if strip (b_output_base_directory req) = []
      then (Inl (ValueError ''Output base directory cannot be empty''), w)
      else
        (let input_dir = absolute os (os_expanduser os (strip (b_input_directory req)));
             output_base_dir =
               absolute os (os_expanduser os (strip (b_output_base_directory req)));
             mode = b_operation_mode req
         in if \<not> os_exists os (files w) input_dir
            then (Inl (OSError (''Input directory not found: '' @ input_dir)), w)
            else if \<not> os_isdir os (files w) input_dir
            then (Inl (ValueError (''Input path is not a directory: '' @ input_dir)), w)
            else
              (case parse_parameter_sets (b_batch_parameters req) of
                 Inl e \<Rightarrow> (Inl e, w)
               | Inr parameter_sets \<Rightarrow>
                   (let search_pattern = os_path_join input_dir (b_file_pattern req);
                        found = os_glob os (files w) search_pattern;
                        input_files = filter_by_mode mode found
                    in if found = []
                       then (Inl (ValueError
                                    (''No files found matching pattern: '' @ search_pattern)), w)
                       else if input_files = []
                       then (Inl (ValueError
                                    (''No valid files found for operation mode: '' @ mode)), w)
                       else
                         (case init_tools os mode w of
                            (Inl e, w1) \<Rightarrow> (Inl e, w1)
                          | (Inr (cooker, renderer), w1) \<Rightarrow>
                              if b_max_workers req \<le> 0
                              then (Inl (ValueError ''max_workers must be greater than 0''), w1)
                              else
                                (case run_units os req output_base_dir cooker renderer
                                        (batch_units input_files parameter_sets)
                                        ([], [], []) w1 of
                                   ((processed, errs, structure), w2) \<Rightarrow>
                                     (Inr \<lparr>processed_files = processed,
                                           summary =
                                             make_summary input_dir output_base_dir mode
                                               input_files parameter_sets processed errs,
                                           error_log = errs,
                                           output_structure = structure\<rparr>, w2)))))))"

text \<open>The outer handler wraps whatever the body raises.\<close>

definition process_batch ::
  "'fs os_env \<Rightarrow> batch_request \<Rightarrow> 'fs world \<Rightarrow> (exn + batch_output) \<times> 'fs world" where
  "process_batch os req w =
     (case process_batch_body os req w of
        (Inl e, w') \<Rightarrow> (Inl (Exception (''Batch processing failed: '' @ exn_str e)), w')
      | (Inr out, w') \<Rightarrow> (Inr out, w'))"

section \<open>Concrete scenarios\<close>

text \<open>
  A small operating system to run the model on: the file system is the list of the paths
  that exist, paths are absolute already, a directory lists the paths directly below it,
  creating a directory adds its path, and the external tool is a parameter.
\<close>

definition sim_listdir :: "string list \<Rightarrow> string \<Rightarrow> string list" where
  "sim_listdir fs d =
     map (drop (Suc (length d)))
       (filter (\<lambda>p. startswith p (d @ ''/'') \<and> CHR ''/'' \<notin> set (drop (Suc (length d)) p)) fs)"

definition sim_os ::
  "(string list \<Rightarrow> string list \<Rightarrow> int option \<Rightarrow> proc_outcome \<times> string list)
     \<Rightarrow> string list os_env" where
  "sim_os tool =
     \<lparr>os_resolve = (\<lambda>fs p. p),
      os_exists = (\<lambda>fs p. p \<in> set fs),
      os_listdir = (\<lambda>fs d. Inr (sim_listdir fs d)),
      os_makedirs = (\<lambda>fs d. Inr (if d \<in> set fs then fs else fs @ [d])),
      os_run = tool,
      os_isdir = (\<lambda>fs p. p \<in> set fs \<and> CHR ''.'' \<notin> set p),
      os_isfile = (\<lambda>fs p. p \<in> set fs),
      os_access_x = (\<lambda>fs p. p \<in> set fs),
      os_glob = (\<lambda>fs pat.
                   map (os_path_join (os_path_dirname pat))
                     (filter (\<lambda>n. endswith n (drop 1 (path_name pat)))
                        (sim_listdir fs (os_path_dirname pat)))),
      os_find_tool = (\<lambda>fs name. if (''/bin/'' @ name) \<in> set fs
                                  then Some (''/bin/'' @ name) else None),
      os_expanduser = (\<lambda>p. p),
      os_abspath = (\<lambda>p. ''/work/'' @ p)\<rparr>"

text \<open>A tool that always ends the same way and writes the given files.\<close>

definition fixed_tool ::
  "proc_outcome \<Rightarrow> string list \<Rightarrow> string list \<Rightarrow> string list \<Rightarrow> int option
     \<Rightarrow> proc_outcome \<times> string list" where
  "fixed_tool outcome written fs cmd timeout = (outcome, fs @ written)"

text \<open>
  A cooker that writes one archive, named after the stem of its first input, into the
  output directory of the command line, and fails with return code 1 for one chosen
  output directory; a renderer that writes \<open>new.<format>\<close>; \<open>--version\<close> succeeds.
\<close>

definition sim_tool ::
  "string \<Rightarrow> string list \<Rightarrow> string list \<Rightarrow> int option \<Rightarrow> proc_outcome \<times> string list" where
  "sim_tool bad_dir fs cmd timeout =
     (if length cmd < 8 then (Completed 0 ''1.0'' [], fs)
      else if cmd ! 5 = bad_dir then (Completed 1 [] ''cannot cook'', fs)
      else if cmd ! 1 = ''cook''
      then (Completed 0 [] [], fs @ [os_path_join (cmd ! 5) (path_stem (cmd ! 3) @ ''.sbsar'')])
      else (Completed 0 [] [], fs @ [os_path_join (cmd ! 5) (''new.'' @ cmd ! 7)]))"

definition world0 :: "string list \<Rightarrow> string list world" where
  "world0 fs = \<lparr>files = fs, spawned = []\<rparr>"

text \<open>Three source files, two parameter sets, cooking only; one unit is made to fail.\<close>

definition batch_files :: "string list" where
  "batch_files = [''/bin/sbscooker'', ''/in'', ''/in/a.sbs'', ''/in/b.sbs'', ''/in/c.sbs'']"

definition batch_demo :: batch_request where
  "batch_demo =
     \<lparr>b_input_directory = ''/in'',
      b_output_base_directory = ''/out'',
      b_operation_mode = ''cook_only'',
      b_file_pattern = ''*.sbs'',
      b_batch_parameters = ParamSets [[(''scale'', ''1'')], [(''scale'', ''2'')]],
      b_output_format = ''png'',
      b_bit_depth = ''8'',
      b_optimization_level = 1,
      b_max_workers = 2,
      b_organize_by_material = True,
      b_verbose = False\<rparr>"

text \<open>
  What the image bridge relies on from the imaging library: an image it reports as mode
  \<open>RGB\<close> has three bands of 8-bit samples, one triple per pixel, and \<open>convert('RGB')\<close>
  of an image read from a file returns such an image of the same size.
\<close>

definition rgb_image :: "pil_image \<Rightarrow> bool" where
  "rgb_image img \<longleftrightarrow>
     img_mode img = ''RGB'' \<and> img_bands img = 3
     \<and> length (img_samples img) = img_height img * img_width img * 3
     \<and> list_all (\<lambda>v. v \<le> 255) (img_samples img)"

definition pil_contract :: "'fs pil_env \<Rightarrow> 'fs \<Rightarrow> bool" where
  "pil_contract pil fs \<longleftrightarrow>
     (\<forall>path img. pil_open pil fs path = Inr img \<and> img_mode img = ''RGB'' \<longrightarrow> rgb_image img)
     \<and> (\<forall>path img img'.
           pil_open pil fs path = Inr img \<and> pil_convert pil img ''RGB'' = Inr img' \<longrightarrow>
           rgb_image img' \<and> img_height img' = img_height img \<and> img_width img' = img_width img)"

text \<open>More concrete data: requests, file systems and an imaging library to run on.\<close>

definition quiet_os :: "string list os_env" where
  "quiet_os = sim_os (fixed_tool (Completed 0 [] []) [])"

definition cook_demo :: "int \<Rightarrow> cook_request" where
  "cook_demo level =
     cook_defaults\<lparr>c_input_files := [''/in/a.sbs''], c_output_path := ''/out'',
                   c_optimization_level := level\<rparr>"

definition merge_demo :: cook_request where
  "merge_demo =
     cook_defaults\<lparr>c_input_files := [''/in/a.sbs'', ''/in/b.sbs''],
                   c_output_path := ''/out'', c_merge := True\<rparr>"

definition named_demo :: "bool \<Rightarrow> cook_request" where
  "named_demo merged =
     cook_defaults\<lparr>c_input_files := [''/in/a.sbs'', ''/in/b.sbs''],
                   c_output_path := ''/out'', c_output_name := Some ''pack'',
                   c_merge := merged\<rparr>"

definition render_demo :: render_request where
  "render_demo =
     render_defaults\<lparr>r_sbsar_file := ''/m/brick.sbsar'', r_output_path := ''/out''\<rparr>"

definition render_files :: "string list" where
  "render_files = [''/m/brick.sbsar'', ''/out'', ''/out/stale.png'', ''/out/notes.txt'']"

definition entry_demo :: render_request where
  "entry_demo =
     render_demo\<lparr>r_image_entries := Some [(''mask'', ''/out/stale.png''), (''base'', ''/m/none.png'')]\<rparr>"

definition demo_pil :: "string list pil_env" where
  "demo_pil =
     \<lparr>pil_open = (\<lambda>fs path.
         if path = ''/i/a.png''
         then Inr \<lparr>img_mode = ''RGB'', img_height = 1, img_width = 2, img_bands = 3,
                   img_samples = [0, 128, 255, 10, 20, 30]\<rparr>
         else if path = ''/i/b.png''
         then Inr \<lparr>img_mode = ''L'', img_height = 2, img_width = 2, img_bands = 1,
                   img_samples = [0, 64, 128, 255]\<rparr>
         else Inl ''cannot identify image file''),
      pil_convert = (\<lambda>img mode.
         if img_mode img = mode then Inr img
         else Inr (img\<lparr>img_mode := mode, img_bands := 3,
                       img_samples := concat (map (\<lambda>v. [v, v, v]) (img_samples img))\<rparr>)),
      pil_save = (\<lambda>fs shape data path format kwargs. Inr (fs @ [path]))\<rparr>"

definition image_files :: "string list" where
  "image_files = [''/i/a.png'', ''/i/b.png'']"

definition grey_image :: pil_image where
  "grey_image = \<lparr>img_mode = ''L'', img_height = 2, img_width = 2, img_bands = 1,
                  img_samples = [0, 64, 128, 255]\<rparr>"

section \<open>Evaluation rules\<close>

text \<open>The definitions that closed terms over strings, paths and the small system unfold.\<close>

lemmas eval_simps = categorize_def path_stem_def path_name_def path_parts_def lower_def
  lower_char_def patterns_def startswith_def

lemmas sim_simps = sim_os_def fixed_tool_def world0_def cook_defaults_def render_defaults_def
  validate_file_path_def ensure_directory_def endswith_def startswith_def lower_def lower_char_def
  run_command_def run_command_try_def cook_args_def optimization_args_def opt_flag_def truthy_def
  os_path_join_def path_stem_def path_name_def path_parts_def Let_def

lemmas render_simps = render_def render_args_def find_output_files_def has_format_def
  int_flag_def organize_output_files_def organized_init_def sim_listdir_def

section \<open>Properties of the output categorizer\<close>

text \<open>The scan for a literal pattern finds exactly the contiguous substrings.\<close>

lemma startswith_prefix: "startswith s p \<longleftrightarrow> prefix p s"
proof
  assume "startswith s p"
  then have "take (length p) s = p" by (simp add: startswith_def)
  then show "prefix p s" by (metis take_is_prefix)
next
  assume "prefix p s"
  then obtain zs where "s = p @ zs" by (auto simp: prefix_def)
  then show "startswith s p" by (simp add: startswith_def)
qed

lemma re_search_sublist: "re_search pat s \<longleftrightarrow> sublist pat s"
  by (induction s) (auto simp: startswith_prefix sublist_Cons_right)

lemma match_patterns_iff: "match_patterns ps f \<longleftrightarrow> list_ex (\<lambda>p. sublist p f) ps"
  by (induction ps) (auto simp: re_search_sublist)

lemma match_category_find:
  "match_category tbl f =
     map_option fst (List.find (\<lambda>(c, ps). list_ex (\<lambda>p. sublist p f) ps) tbl)"
  by (induction tbl) (auto simp: match_patterns_iff)

text \<open>
  Claim C6. The categorizer lower-cases the stem of the file name and walks the pattern
  table in its fixed order: the result is the category of the first table entry one of
  whose patterns occurs in the lower-cased stem, and \<open>other\<close> when no entry has one. In
  particular \<open>Brick_BaseColor.png\<close> is \<open>diffuse\<close>, \<open>Brick_Normal.png\<close> is \<open>normal\<close>,
  \<open>Brick_Roughness.png\<close> is \<open>roughness\<close> and \<open>Brick_Weird.png\<close> is \<open>other\<close>.
\<close>

theorem categorize_first_match:
  "categorize file_path =
     (case List.find (\<lambda>(category, ps). list_ex (\<lambda>p. sublist p (lower (path_stem file_path))) ps)
             patterns of
        None \<Rightarrow> ''other''
      | Some (category, ps) \<Rightarrow> category)
   \<and> categorize ''Brick_BaseColor.png'' = ''diffuse''
   \<and> categorize ''Brick_Normal.png'' = ''normal''
   \<and> categorize ''Brick_Roughness.png'' = ''roughness''
   \<and> categorize ''Brick_Weird.png'' = ''other''"
proof -
  have general: "categorize file_path =
     (case List.find (\<lambda>(category, ps). list_ex (\<lambda>p. sublist p (lower (path_stem file_path))) ps)
             patterns of
        None \<Rightarrow> ''other''
      | Some (category, ps) \<Rightarrow> category)"
    by (simp add: categorize_def match_category_find split: option.splits prod.splits)
  have e1: "categorize ''Brick_BaseColor.png'' = ''diffuse''" by (simp add: eval_simps)
  have e2: "categorize ''Brick_Normal.png'' = ''normal''" by (simp add: eval_simps)
  have e3: "categorize ''Brick_Roughness.png'' = ''roughness''" by (simp add: eval_simps)
  have e4: "categorize ''Brick_Weird.png'' = ''other''" by (simp add: eval_simps)
  from general e1 e2 e3 e4 show ?thesis by blast
qed

text \<open>
  The loop over the files only ever appends to the list of the file's category, so the
  dictionary it builds holds, under each of the nine keys, the files of that category
  in input order.
\<close>

lemma map_update_absent:
  "k \<notin> fst ` set d \<Longrightarrow> map (\<lambda>(k', vs). (k', if k' = k then vs @ [v] else vs)) d = d"
  by (induction d) auto

lemma dict_append_map:
  "distinct (map fst d) \<Longrightarrow>
   dict_append k v d = map (\<lambda>(k', vs). (k', if k' = k then vs @ [v] else vs)) d"
  by (induction d) (auto simp: map_update_absent)

lemma dict_append_keys: "map fst (dict_append k v d) = map fst d"
  by (induction d) auto

lemma organize_loop_map:
  "distinct (map fst d) \<Longrightarrow>
   organize_loop fs d = map (\<lambda>(k, vs). (k, vs @ filter (\<lambda>p. categorize p = k) fs)) d"
proof (induction fs arbitrary: d)
  case Nil
  then show ?case by simp
next
  case (Cons f fs)
  have "distinct (map fst (dict_append (categorize f) f d))"
    using Cons.prems by (simp add: dict_append_keys)
  then have "organize_loop fs (dict_append (categorize f) f d) =
      map (\<lambda>(k, vs). (k, vs @ filter (\<lambda>p. categorize p = k) fs)) (dict_append (categorize f) f d)"
    by (rule Cons.IH)
  then show ?case
    using Cons.prems by (auto simp: dict_append_map)
qed

lemma organize_output_files_eq:
  "organize_output_files fs =
     filter (\<lambda>(k, v). v \<noteq> []) (map (\<lambda>k. (k, filter (\<lambda>p. categorize p = k) fs)) (map fst organized_init))"
proof -
  have "distinct (map fst organized_init)" by (simp add: organized_init_def)
  then have "organize_loop fs organized_init =
      map (\<lambda>(k, vs). (k, vs @ filter (\<lambda>p. categorize p = k) fs)) organized_init"
    by (rule organize_loop_map)
  also have "\<dots> = map (\<lambda>k. (k, filter (\<lambda>p. categorize p = k) fs)) (map fst organized_init)"
    by (simp add: organized_init_def)
  finally show ?thesis by (simp add: organize_output_files_def)
qed

lemma match_category_key: "match_category tbl f = Some c \<Longrightarrow> c \<in> fst ` set tbl"
  by (induction tbl) (auto split: if_splits)

lemma categorize_is_category: "categorize p \<in> set (map fst organized_init)"
proof (cases "match_category patterns (lower (path_stem p))")
  case None
  then show ?thesis by (simp add: categorize_def organized_init_def)
next
  case (Some c)
  then have "c \<in> fst ` set patterns" by (rule match_category_key)
  then have "c \<in> set (map fst organized_init)"
    by (auto simp: patterns_def organized_init_def)
  with Some show ?thesis by (simp add: categorize_def)
qed

lemma sum_single_absent:
  "c \<notin> set ks \<Longrightarrow> (\<Sum>k\<leftarrow>ks. if c = k then {#x#} else {#}) = {#}"
  by (induction ks) auto

lemma sum_single_present:
  "distinct ks \<Longrightarrow> c \<in> set ks \<Longrightarrow> (\<Sum>k\<leftarrow>ks. if c = k then {#x#} else {#}) = {#x#}"
  by (induction ks) (auto simp: sum_single_absent)

lemma mset_concat_classes:
  "distinct ks \<Longrightarrow> (\<And>p. p \<in> set fs \<Longrightarrow> f p \<in> set ks) \<Longrightarrow>
   mset (concat (map (\<lambda>k. filter (\<lambda>p. f p = k) fs) ks)) = mset fs"
proof (induction fs)
  case Nil
  have "concat (map (\<lambda>k. filter (\<lambda>p. f p = k) []) ks) = []" by (induction ks) auto
  then show ?case by simp
next
  case (Cons x xs)
  have IH: "mset (concat (map (\<lambda>k. filter (\<lambda>p. f p = k) xs) ks)) = mset xs"
    using Cons by simp
  have fx: "f x \<in> set ks" using Cons.prems by simp
  have pt: "\<And>k. mset (filter (\<lambda>p. f p = k) (x # xs)) =
        (if f x = k then {#x#} else {#}) + mset (filter (\<lambda>p. f p = k) xs)"
    by simp
  have "mset (concat (map (\<lambda>k. filter (\<lambda>p. f p = k) (x # xs)) ks)) =
        (\<Sum>k\<leftarrow>ks. mset (filter (\<lambda>p. f p = k) (x # xs)))"
    by (simp only: mset_concat map_map comp_def)
  also have "\<dots> =
        (\<Sum>k\<leftarrow>ks. (if f x = k then {#x#} else {#}) + mset (filter (\<lambda>p. f p = k) xs))"
    by (simp only: pt)
  also have "\<dots> = (\<Sum>k\<leftarrow>ks. if f x = k then {#x#} else {#})
                  + (\<Sum>k\<leftarrow>ks. mset (filter (\<lambda>p. f p = k) xs))"
    by (simp add: sum_list_addf)
  also have "\<dots> = {#x#} + mset xs"
    using IH sum_single_present[OF Cons.prems(1) fx, of x]
    by (simp only: mset_concat map_map comp_def)
  finally show ?case by simp
qed

lemma concat_filter_nonempty:
  "concat (map snd (filter (\<lambda>(k, v). v \<noteq> []) kvs)) = concat (map snd kvs)"
  by (induction kvs) auto

text \<open>
  Claim C9. The mapping \<open>_organize_output_files\<close> returns is a partition of its input:
  the lists together hold exactly the input paths (as a multiset), the keys are distinct,
  no list is empty, each list holds the input paths of its category in input order, and
  every input path lies in the list of exactly one key.
\<close>

theorem organize_output_files_partition:
  "mset (concat (map snd (organize_output_files output_files))) = mset output_files
   \<and> distinct (map fst (organize_output_files output_files))
   \<and> [] \<notin> snd ` set (organize_output_files output_files)
   \<and> (\<forall>(k, v) \<in> set (organize_output_files output_files).
         v = filter (\<lambda>p. categorize p = k) output_files)
   \<and> (\<forall>p \<in> set output_files.
         \<exists>!k. \<exists>v. (k, v) \<in> set (organize_output_files output_files) \<and> p \<in> set v)"
proof -
  let ?r = "organize_output_files output_files"
  have keys: "distinct (map fst organized_init)" by (simp add: organized_init_def)
  have perm: "mset (concat (map snd ?r)) = mset output_files"
    using mset_concat_classes[OF keys, of output_files categorize] categorize_is_category
    by (simp add: organize_output_files_eq concat_filter_nonempty comp_def)
  have dist: "distinct (map fst ?r)"
    using keys by (simp add: organize_output_files_eq distinct_map_filter comp_def)
  have nonempty: "[] \<notin> snd ` set ?r"
    by (auto simp: organize_output_files_eq)
  have lists: "\<forall>(k, v) \<in> set ?r. v = filter (\<lambda>p. categorize p = k) output_files"
    by (auto simp: organize_output_files_eq)
  have mem: "\<And>k v. (k, v) \<in> set ?r \<longleftrightarrow>
      k \<in> set (map fst organized_init) \<and> v = filter (\<lambda>p. categorize p = k) output_files \<and> v \<noteq> []"
    by (auto simp: organize_output_files_eq)
  have uniq: "\<forall>p \<in> set output_files. \<exists>!k. \<exists>v. (k, v) \<in> set ?r \<and> p \<in> set v"
  proof
    fix p assume p: "p \<in> set output_files"
    let ?v = "filter (\<lambda>q. categorize q = categorize p) output_files"
    have pv: "p \<in> set ?v" using p by simp
    then have "?v \<noteq> []" by (metis empty_iff empty_set)
    then have "(categorize p, ?v) \<in> set ?r"
      using categorize_is_category[of p] by (simp only: mem) simp
    with pv have "(categorize p, ?v) \<in> set ?r \<and> p \<in> set ?v" by simp
    moreover have "\<And>k v. (k, v) \<in> set ?r \<Longrightarrow> p \<in> set v \<Longrightarrow> k = categorize p"
      by (auto simp: mem)
    ultimately show "\<exists>!k. \<exists>v. (k, v) \<in> set ?r \<and> p \<in> set v" by blast
  qed
  from perm dist nonempty lists uniq show ?thesis by blast
qed

text \<open>The partition at three files of three different categories.\<close>

theorem organize_output_files_partition_witness:
  "organize_output_files [''/o/Brick_BaseColor.png'', ''/o/Brick_Normal.png'', ''/o/notes.png''] =
     [(''diffuse'', [''/o/Brick_BaseColor.png'']), (''normal'', [''/o/Brick_Normal.png'']),
      (''other'', [''/o/notes.png''])]
   \<and> (\<exists>!k. \<exists>v. (k, v) \<in> set (organize_output_files
          [''/o/Brick_BaseColor.png'', ''/o/Brick_Normal.png'', ''/o/notes.png''])
        \<and> ''/o/Brick_Normal.png'' \<in> set v)"
proof -
  let ?l = "[''/o/Brick_BaseColor.png'', ''/o/Brick_Normal.png'', ''/o/notes.png'']"
  have c: "categorize ''/o/Brick_BaseColor.png'' = ''diffuse''"
    "categorize ''/o/Brick_Normal.png'' = ''normal''"
    "categorize ''/o/notes.png'' = ''other''"
    by (simp_all add: eval_simps)
  have ev: "organize_output_files ?l =
     [(''diffuse'', [''/o/Brick_BaseColor.png'']), (''normal'', [''/o/Brick_Normal.png'']),
      (''other'', [''/o/notes.png''])]"
    by (simp add: organize_output_files_def organized_init_def c)
  have "\<forall>p \<in> set ?l. \<exists>!k. \<exists>v. (k, v) \<in> set (organize_output_files ?l) \<and> p \<in> set v"
    using organize_output_files_partition[of ?l] by blast
  then have "\<exists>!k. \<exists>v. (k, v) \<in> set (organize_output_files ?l) \<and> ''/o/Brick_Normal.png'' \<in> set v"
    by simp
  with ev show ?thesis by blast
qed

section \<open>Properties of the command runner\<close>

text \<open>The result of \<open>_run_command\<close>, by how \<open>subprocess.run\<close> ends.\<close>

lemma run_command_eq:
  assumes "os_run os (files w) (tool_path # args) timeout = (outcome, fs')"
  shows "run_command os tool_path args timeout w =
     ((case outcome of
         Completed rc out err \<Rightarrow>
           if rc \<noteq> 0 then
             Inl (SubstanceToolError
                    (''Command execution failed: Command failed with return code '' @ str_int rc
                       @ (if err = [] then [] else '': '' @ err)))
           else Inr \<lparr>returncode = rc, stdout = out, stderr = err\<rparr>
       | TimeoutExpired \<Rightarrow>
           Inl (SubstanceToolError
                  (''Command timed out after '' @ str_timeout timeout @ '' seconds''))
       | FileNotFound \<Rightarrow> Inl (SubstanceToolError (''Tool not found: '' @ tool_path))
       | OtherFailure msg \<Rightarrow> Inl (SubstanceToolError (''Command execution failed: '' @ msg))),
      \<lparr>files = fs', spawned = spawned w @ [tool_path # args]\<rparr>)"
  using assms
  by (cases outcome) (simp_all add: run_command_def run_command_try_def)

lemma run_command_spawned:
  "spawned (snd (run_command os tool_path args timeout w)) = spawned w @ [tool_path # args]"
proof -
  obtain outcome fs' where "os_run os (files w) (tool_path # args) timeout = (outcome, fs')"
    by (cases "os_run os (files w) (tool_path # args) timeout")
  then show ?thesis by (simp add: run_command_eq)
qed

lemma run_command_files:
  "files (snd (run_command os tool_path args timeout w)) =
     snd (os_run os (files w) (tool_path # args) timeout)"
proof -
  obtain outcome fs' where "os_run os (files w) (tool_path # args) timeout = (outcome, fs')"
    by (cases "os_run os (files w) (tool_path # args) timeout")
  then show ?thesis by (simp add: run_command_eq)
qed

text \<open>
  Claim C7. When the wait for the subprocess times out, \<open>_run_command\<close> raises the
  timeout error; when the subprocess exits with a non-zero code, it raises the
  execution-failure error, whose message holds the exit code and the captured standard
  error text; when the executable is not found, it raises the tool-not-found error. In
  every case the call hands exactly one command line to \<open>subprocess.run\<close>: nothing is
  retried.
\<close>

theorem run_command_failures:
  "(fst (os_run os (files w) (tool_path # args) timeout) = TimeoutExpired \<longrightarrow>
      fst (run_command os tool_path args timeout w) =
        Inl (SubstanceToolError
               (''Command timed out after '' @ str_timeout timeout @ '' seconds'')))
   \<and> (\<forall>rc out err.
         fst (os_run os (files w) (tool_path # args) timeout) = Completed rc out err \<and> rc \<noteq> 0 \<longrightarrow>
         fst (run_command os tool_path args timeout w) =
           Inl (SubstanceToolError
                  (''Command execution failed: Command failed with return code '' @ str_int rc
                     @ (if err = [] then [] else '': '' @ err))))
   \<and> (fst (os_run os (files w) (tool_path # args) timeout) = FileNotFound \<longrightarrow>
        fst (run_command os tool_path args timeout w) =
          Inl (SubstanceToolError (''Tool not found: '' @ tool_path)))
   \<and> spawned (snd (run_command os tool_path args timeout w)) = spawned w @ [tool_path # args]"
proof -
  obtain outcome fs' where run: "os_run os (files w) (tool_path # args) timeout = (outcome, fs')"
    by (cases "os_run os (files w) (tool_path # args) timeout")
  show ?thesis
    by (cases outcome) (simp_all add: run_command_eq[OF run] run)
qed

text \<open>The three failures on a tool that times out, one that exits with 2, one that is gone.\<close>

theorem run_command_failures_witness:
  "fst (run_command (sim_os (fixed_tool TimeoutExpired [])) ''/bin/sbsrender'' [''render'']
          (Some 600) (world0 [])) =
     Inl (SubstanceToolError ''Command timed out after 600 seconds'')
   \<and> fst (run_command (sim_os (fixed_tool (Completed 2 [] ''bad graph'') [])) ''/bin/sbsrender''
            [''render''] (Some 600) (world0 [])) =
     Inl (SubstanceToolError
            ''Command execution failed: Command failed with return code 2: bad graph'')
   \<and> fst (run_command (sim_os (fixed_tool FileNotFound [])) ''/bin/sbsrender'' [''render'']
            (Some 600) (world0 [])) =
     Inl (SubstanceToolError ''Tool not found: /bin/sbsrender'')
   \<and> spawned (snd (run_command (sim_os (fixed_tool FileNotFound [])) ''/bin/sbsrender''
                     [''render''] (Some 600) (world0 []))) =
     [[''/bin/sbsrender'', ''render'']]"
  using run_command_failures[of "sim_os (fixed_tool TimeoutExpired [])" "world0 []"
          "''/bin/sbsrender''" "[''render'']" "Some 600"]
        run_command_failures[of "sim_os (fixed_tool (Completed 2 [] ''bad graph'') [])" "world0 []"
          "''/bin/sbsrender''" "[''render'']" "Some 600"]
        run_command_failures[of "sim_os (fixed_tool FileNotFound [])" "world0 []"
          "''/bin/sbsrender''" "[''render'']" "Some 600"]
  by (simp add: sim_os_def fixed_tool_def world0_def str_timeout_def str_int_def digit_char_def
        str_nat.simps)

section \<open>Properties of the cooker adapter\<close>

lemma ensure_directory_spawned:
  "spawned (snd (ensure_directory os w d)) = spawned w"
  by (simp add: ensure_directory_def Let_def split: sum.splits)

lemma validate_inputs_bad:
  assumes "p \<in> set ins"
    and "p = [] \<or> \<not> os_exists os (files w) (os_resolve os (files w) p)
         \<or> \<not> endswith (lower (os_resolve os (files w) p)) ''.sbs''"
  shows "\<exists>q \<in> set ins.
           validate_inputs os w ins = Inl (SubstanceToolError ''File path cannot be empty'')
         \<or> validate_inputs os w ins =
             Inl (SubstanceToolError (''File does not exist: '' @ os_resolve os (files w) q))
         \<or> validate_inputs os w ins =
             Inl (SubstanceToolError (''Input file must be .sbs format: '' @ q))"
  using assms
proof (induction ins)
  case Nil
  then show ?case by simp
next
  case (Cons a ins)
  show ?case
  proof (cases "validate_file_path os w a True")
    case (Inl e)
    then show ?thesis
      by (auto simp: validate_file_path_def Let_def split: if_splits)
  next
    case (Inr v)
    then have v: "v = os_resolve os (files w) a" and a: "a \<noteq> []"
      "os_exists os (files w) (os_resolve os (files w) a)"
      by (auto simp: validate_file_path_def Let_def split: if_splits)
    show ?thesis
    proof (cases "endswith (lower v) ''.sbs''")
      case False
      with Inr show ?thesis by auto
    next
      case True
      with v a Cons.prems have "p \<in> set ins" by auto
      from Cons.IH[OF this Cons.prems(2)] obtain q where q: "q \<in> set ins"
        "validate_inputs os w ins = Inl (SubstanceToolError ''File path cannot be empty'')
         \<or> validate_inputs os w ins =
             Inl (SubstanceToolError (''File does not exist: '' @ os_resolve os (files w) q))
         \<or> validate_inputs os w ins =
             Inl (SubstanceToolError (''Input file must be .sbs format: '' @ q))"
        by blast
      from q(2) Inr True have
        "validate_inputs os w (a # ins) = Inl (SubstanceToolError ''File path cannot be empty'')
         \<or> validate_inputs os w (a # ins) =
             Inl (SubstanceToolError (''File does not exist: '' @ os_resolve os (files w) q))
         \<or> validate_inputs os w (a # ins) =
             Inl (SubstanceToolError (''Input file must be .sbs format: '' @ q))"
        by auto
      with q(1) show ?thesis by auto
    qed
  qed
qed

text \<open>
  Claim C4. When one of the input paths of a cook request is empty, or its normalised
  path does not exist, or its normalised path does not end in \<open>.sbs\<close> (in any case of
  letters), \<open>cook\<close> raises the error of the validation loop, and the state is the one
  it started in: no directory is created and no command line is handed to the command
  runner. (The code tests the path that \<open>Path.resolve\<close> returns, so that is the path
  the hypothesis speaks of.)
\<close>

theorem cook_invalid_input_not_spawned:
  assumes "p \<in> set (c_input_files req)"
    and "p = [] \<or> \<not> os_exists os (files w) (os_resolve os (files w) p)
         \<or> \<not> endswith (lower (os_resolve os (files w) p)) ''.sbs''"
  shows "\<exists>q \<in> set (c_input_files req).
           (fst (cook os tool_path req w) = Inl (SubstanceToolError ''File path cannot be empty'')
            \<or> fst (cook os tool_path req w) =
                 Inl (SubstanceToolError (''File does not exist: '' @ os_resolve os (files w) q))
            \<or> fst (cook os tool_path req w) =
                 Inl (SubstanceToolError (''Input file must be .sbs format: '' @ q)))
           \<and> snd (cook os tool_path req w) = w
           \<and> spawned (snd (cook os tool_path req w)) = spawned w"
proof -
  from validate_inputs_bad[OF assms] obtain q where q: "q \<in> set (c_input_files req)"
    "validate_inputs os w (c_input_files req) = Inl (SubstanceToolError ''File path cannot be empty'')
     \<or> validate_inputs os w (c_input_files req) =
         Inl (SubstanceToolError (''File does not exist: '' @ os_resolve os (files w) q))
     \<or> validate_inputs os w (c_input_files req) =
         Inl (SubstanceToolError (''Input file must be .sbs format: '' @ q))"
    by blast
  from q(2) have
    "(fst (cook os tool_path req w) = Inl (SubstanceToolError ''File path cannot be empty'')
            \<or> fst (cook os tool_path req w) =
                 Inl (SubstanceToolError (''File does not exist: '' @ os_resolve os (files w) q))
            \<or> fst (cook os tool_path req w) =
                 Inl (SubstanceToolError (''Input file must be .sbs format: '' @ q)))
           \<and> snd (cook os tool_path req w) = w
           \<and> spawned (snd (cook os tool_path req w)) = spawned w"
    by (auto simp: cook_def)
  with q(1) show ?thesis by blast
qed

text \<open>A request with a missing file, and one with a file of the wrong extension.\<close>

theorem cook_invalid_input_not_spawned_witness:
  "fst (cook quiet_os ''/bin/sbscooker''
          (cook_defaults\<lparr>c_input_files := [''/in/a.sbs'', ''/in/missing.sbs'', ''/in/notes.txt''],
                         c_output_path := ''/out''\<rparr>)
          (world0 [''/in/a.sbs'', ''/in/notes.txt''])) =
     Inl (SubstanceToolError ''File does not exist: /in/missing.sbs'')
   \<and> fst (cook quiet_os ''/bin/sbscooker''
          (cook_defaults\<lparr>c_input_files := [''/in/a.sbs'', ''/in/notes.txt''],
                         c_output_path := ''/out''\<rparr>)
          (world0 [''/in/a.sbs'', ''/in/notes.txt''])) =
     Inl (SubstanceToolError ''Input file must be .sbs format: /in/notes.txt'')
   \<and> spawned (snd (cook quiet_os ''/bin/sbscooker''
          (cook_defaults\<lparr>c_input_files := [''/in/a.sbs'', ''/in/missing.sbs'', ''/in/notes.txt''],
                         c_output_path := ''/out''\<rparr>)
          (world0 [''/in/a.sbs'', ''/in/notes.txt'']))) = []"
proof -
  let ?w = "world0 [''/in/a.sbs'', ''/in/notes.txt'']"
  let ?r1 = "cook_defaults\<lparr>c_input_files := [''/in/a.sbs'', ''/in/missing.sbs'', ''/in/notes.txt''],
                         c_output_path := ''/out''\<rparr>"
  let ?r2 = "cook_defaults\<lparr>c_input_files := [''/in/a.sbs'', ''/in/notes.txt''],
                         c_output_path := ''/out''\<rparr>"
  have m1: "''/in/missing.sbs'' \<in> set (c_input_files ?r1)" by simp
  have h1: "''/in/missing.sbs'' = [] \<or>
      \<not> os_exists quiet_os (files ?w) (os_resolve quiet_os (files ?w) ''/in/missing.sbs'')
      \<or> \<not> endswith (lower (os_resolve quiet_os (files ?w) ''/in/missing.sbs'')) ''.sbs''"
    by (simp add: quiet_os_def sim_os_def world0_def)
  have m2: "''/in/notes.txt'' \<in> set (c_input_files ?r2)" by simp
  have h2: "''/in/notes.txt'' = [] \<or>
      \<not> os_exists quiet_os (files ?w) (os_resolve quiet_os (files ?w) ''/in/notes.txt'')
      \<or> \<not> endswith (lower (os_resolve quiet_os (files ?w) ''/in/notes.txt'')) ''.sbs''"
    by (simp add: quiet_os_def sim_os_def world0_def endswith_def lower_def lower_char_def)
  have s1: "spawned (snd (cook quiet_os ''/bin/sbscooker'' ?r1 ?w)) = spawned ?w"
    using cook_invalid_input_not_spawned[OF m1 h1, of "''/bin/sbscooker''"] by blast
  have e1: "fst (cook quiet_os ''/bin/sbscooker'' ?r1 ?w) =
      Inl (SubstanceToolError ''File does not exist: /in/missing.sbs'')"
    by (simp add: cook_def quiet_os_def sim_simps)
  have e2: "fst (cook quiet_os ''/bin/sbscooker'' ?r2 ?w) =
      Inl (SubstanceToolError ''Input file must be .sbs format: /in/notes.txt'')"
    using cook_invalid_input_not_spawned[OF m2 h2, of "''/bin/sbscooker''"]
    by (simp add: cook_def quiet_os_def sim_simps)
  from s1 e1 e2 show ?thesis by (simp add: world0_def)
qed

lemma cook_world:
  assumes "validate_inputs os w (c_input_files req) = Inr validated"
    and "ensure_directory os w (c_output_path req) = (Inr output_dir, w1)"
  shows "snd (cook os tool_path req w) =
           snd (run_command os tool_path (cook_args req validated output_dir) (Some 300) w1)"
  using assms by (simp add: cook_def Let_def split: prod.splits sum.splits)

text \<open>
  Claim C3. Once the inputs are validated and the output directory exists, \<open>cook\<close> hands
  one command line to the command runner. Between the arguments that do not depend on
  the optimization level (inputs, output path, output name, merge, icons, archive) and
  the verbosity flag it holds, for level 0, \<open>--crc 1 --full 0\<close>; for level 1,
  \<open>--full 1\<close>; for level 2, \<open>--full 1 --merge-graph 1\<close>; for level 3,
  \<open>--full 1 --merge-graph 1 --merge-data 1 --reordering 1\<close>; and nothing else.
\<close>

theorem cook_optimization_flags:
  fixes req :: cook_request
  defines "head \<equiv> \<lambda>validated output_dir.
      [''cook'', ''--inputs''] @ validated @ [''--output-path'', output_dir]
      @ opt_flag ''--output-name'' (c_output_name req)
      @ (if c_merge req then [''--merge''] else [])
      @ (if c_enable_icons req then [''--enable-icons''] else [])
      @ (if c_no_archive req then [''--no-archive''] else [])"
    and "tail \<equiv> (if c_verbose req then [''--verbose''] else [''--quiet''])
      @ kwargs_args (c_kwargs req)"
  assumes "validate_inputs os w (c_input_files req) = Inr validated"
    and "ensure_directory os w (c_output_path req) = (Inr output_dir, w1)"
  shows "(c_optimization_level req = 0 \<longrightarrow>
            spawned (snd (cook os tool_path req w)) =
              spawned w @ [tool_path # (head validated output_dir
                 @ [''--crc'', ''1'', ''--full'', ''0''] @ tail)])
       \<and> (c_optimization_level req = 1 \<longrightarrow>
            spawned (snd (cook os tool_path req w)) =
              spawned w @ [tool_path # (head validated output_dir
                 @ [''--full'', ''1''] @ tail)])
       \<and> (c_optimization_level req = 2 \<longrightarrow>
            spawned (snd (cook os tool_path req w)) =
              spawned w @ [tool_path # (head validated output_dir
                 @ [''--full'', ''1'', ''--merge-graph'', ''1''] @ tail)])
       \<and> (c_optimization_level req = 3 \<longrightarrow>
            spawned (snd (cook os tool_path req w)) =
              spawned w @ [tool_path # (head validated output_dir
                 @ [''--full'', ''1'', ''--merge-graph'', ''1'', ''--merge-data'', ''1'',
                    ''--reordering'', ''1''] @ tail)])"
proof -
  have w1: "spawned w1 = spawned w"
    using ensure_directory_spawned[of os w "c_output_path req"] assms(4) by simp
  have "spawned (snd (cook os tool_path req w)) =
          spawned w @ [tool_path # cook_args req validated output_dir]"
    by (simp add: cook_world[OF assms(3,4)] run_command_spawned w1)
  then show ?thesis
    by (simp add: cook_args_def optimization_args_def head_def tail_def)
qed

text \<open>The four command lines for one source file.\<close>

theorem cook_optimization_flags_witness:
  "spawned (snd (cook quiet_os ''/bin/sbscooker'' (cook_demo 0) (world0 [''/in/a.sbs'']))) =
     [[''/bin/sbscooker'', ''cook'', ''--inputs'', ''/in/a.sbs'', ''--output-path'', ''/out'',
       ''--enable-icons'', ''--crc'', ''1'', ''--full'', ''0'', ''--quiet'']]
   \<and> spawned (snd (cook quiet_os ''/bin/sbscooker'' (cook_demo 1) (world0 [''/in/a.sbs'']))) =
     [[''/bin/sbscooker'', ''cook'', ''--inputs'', ''/in/a.sbs'', ''--output-path'', ''/out'',
       ''--enable-icons'', ''--full'', ''1'', ''--quiet'']]
   \<and> spawned (snd (cook quiet_os ''/bin/sbscooker'' (cook_demo 2) (world0 [''/in/a.sbs'']))) =
     [[''/bin/sbscooker'', ''cook'', ''--inputs'', ''/in/a.sbs'', ''--output-path'', ''/out'',
       ''--enable-icons'', ''--full'', ''1'', ''--merge-graph'', ''1'', ''--quiet'']]
   \<and> spawned (snd (cook quiet_os ''/bin/sbscooker'' (cook_demo 3) (world0 [''/in/a.sbs'']))) =
     [[''/bin/sbscooker'', ''cook'', ''--inputs'', ''/in/a.sbs'', ''--output-path'', ''/out'',
       ''--enable-icons'', ''--full'', ''1'', ''--merge-graph'', ''1'', ''--merge-data'', ''1'',
       ''--reordering'', ''1'', ''--quiet'']]"
proof -
  let ?w = "world0 [''/in/a.sbs'']"
  have v: "\<And>l. validate_inputs quiet_os ?w (c_input_files (cook_demo l)) = Inr [''/in/a.sbs'']"
    by (simp add: cook_demo_def quiet_os_def sim_simps)
  have e: "\<And>l. ensure_directory quiet_os ?w (c_output_path (cook_demo l)) =
              (Inr ''/out'', \<lparr>files = [''/in/a.sbs'', ''/out''], spawned = []\<rparr>)"
    by (simp add: cook_demo_def quiet_os_def sim_simps)
  have l: "\<And>l. c_optimization_level (cook_demo l) = l"
    by (simp add: cook_demo_def)
  show ?thesis
    using cook_optimization_flags[OF v[of 0] e[of 0], of "''/bin/sbscooker''"]
      cook_optimization_flags[OF v[of 1] e[of 1], of "''/bin/sbscooker''"]
      cook_optimization_flags[OF v[of 2] e[of 2], of "''/bin/sbscooker''"]
      cook_optimization_flags[OF v[of 3] e[of 3], of "''/bin/sbscooker''"]
    by (simp add: l cook_demo_def cook_defaults_def opt_flag_def world0_def)
qed

lemma probe_inputs_eq:
  "probe_inputs os fs name output_dir ins =
     filter (os_exists os fs)
       (map (\<lambda>input_file. os_path_join output_dir
               ((if truthy name then the name else path_stem input_file) @ ''.sbsar'')) ins)"
  by (induction ins) (simp_all add: Let_def)

lemma cook_result:
  assumes "cook os tool_path req w = (Inr res, w')"
  shows "cook_output_files res =
           determine_output_files os (files w') req (cook_input_files res) (cook_output_directory res)"
  using assms by (auto simp: cook_def Let_def split: prod.splits sum.splits)

lemma validate_inputs_resolved:
  "validate_inputs os w ins = Inr validated \<Longrightarrow> validated = map (os_resolve os (files w)) ins"
proof (induction ins arbitrary: validated)
  case Nil
  then show ?case by simp
next
  case (Cons a ins)
  from Cons.prems obtain v rest where
    v: "validate_file_path os w a True = Inr v"
    and rest: "validate_inputs os w ins = Inr rest" and eq: "validated = v # rest"
    by (auto split: sum.splits if_splits)
  from v have "v = os_resolve os (files w) a"
    by (auto simp: validate_file_path_def Let_def split: if_splits)
  with Cons.IH[OF rest] eq show ?case by simp
qed

lemma cook_result_inputs:
  assumes "cook os tool_path req w = (Inr res, w')"
  shows "cook_input_files res = map (os_resolve os (files w)) (c_input_files req)"
proof -
  from assms obtain validated where
    v: "validate_inputs os w (c_input_files req) = Inr validated"
    and r: "cook_input_files res = validated"
    by (auto simp: cook_def Let_def split: prod.splits sum.splits)
  from validate_inputs_resolved[OF v] r show ?thesis by simp
qed

lemma merge_demo_run:
  "\<exists>res w'. cook (sim_os (fixed_tool (Completed 0 [] []) [''/out/merged.sbsar'']))
             ''/bin/sbscooker'' merge_demo (world0 [''/in/a.sbs'', ''/in/b.sbs'']) = (Inr res, w')
      \<and> cook_success res \<and> cook_output_files res = []
      \<and> ''/out/merged.sbsar'' \<in> set (files w')"
  by (simp add: cook_def merge_demo_def determine_output_files_def sim_simps)

lemma named_demo_run:
  "\<exists>res w'. cook (sim_os (fixed_tool (Completed 0 [] []) [''/out/pack.sbsar'']))
             ''/bin/sbscooker'' (named_demo True) (world0 [''/in/a.sbs'', ''/in/b.sbs''])
           = (Inr res, w')
      \<and> cook_output_files res = [''/out/pack.sbsar'']"
  "\<exists>res w'. cook (sim_os (fixed_tool (Completed 0 [] []) [''/out/pack.sbsar'']))
             ''/bin/sbscooker'' (named_demo False) (world0 [''/in/a.sbs'', ''/in/b.sbs''])
           = (Inr res, w')
      \<and> cook_output_files res = [''/out/pack.sbsar'', ''/out/pack.sbsar'']"
  by (simp_all add: cook_def named_demo_def determine_output_files_def sim_simps)

text \<open>
  Claim C10. After a successful run, \<open>cook\<close> looks for the single file
  \<open>{output_name}.sbsar\<close> only when \<open>merge\<close> is set and \<open>output_name\<close> is given and
  not empty. In every other case it looks for one file per validated input: named
  \<open>{output_name}.sbsar\<close> each time when \<open>merge\<close> is not set and a non-empty
  \<open>output_name\<close> is given, and \<open>{stem}.sbsar\<close> after the input's stem when
  \<open>output_name\<close> is missing or empty, whether \<open>merge\<close> is set or not. So a merged
  cook without an output name can succeed with an empty list of output files, as it
  does when the tool writes \<open>merged.sbsar\<close> for the inputs \<open>a.sbs\<close> and \<open>b.sbs\<close>. The
  validated inputs are the normalised paths of the request's inputs, and the output
  directory is the normalised output path.
\<close>

theorem cook_output_probing:
  assumes "cook os tool_path req w = (Inr res, w')"
  shows "(\<forall>name. c_merge req \<and> c_output_name req = Some name \<and> name \<noteq> [] \<longrightarrow>
            cook_output_files res =
              filter (os_exists os (files w'))
                [os_path_join (cook_output_directory res) (name @ ''.sbsar'')])
       \<and> (c_merge req \<and> c_output_name req = None \<longrightarrow>
            cook_output_files res =
              filter (os_exists os (files w'))
                (map (\<lambda>input_file. os_path_join (cook_output_directory res)
                        (path_stem input_file @ ''.sbsar'')) (cook_input_files res)))
       \<and> (c_merge merge_demo \<and> c_output_name merge_demo = None \<and>
          (\<exists>res w'. cook (sim_os (fixed_tool (Completed 0 [] []) [''/out/merged.sbsar'']))
                      ''/bin/sbscooker'' merge_demo (world0 [''/in/a.sbs'', ''/in/b.sbs''])
                    = (Inr res, w')
             \<and> cook_success res \<and> cook_output_files res = []
             \<and> ''/out/merged.sbsar'' \<in> set (files w')))
       \<and> (\<forall>name. \<not> c_merge req \<and> c_output_name req = Some name \<and> name \<noteq> [] \<longrightarrow>
            cook_output_files res =
              filter (os_exists os (files w'))
                (map (\<lambda>input_file. os_path_join (cook_output_directory res) (name @ ''.sbsar''))
                   (cook_input_files res)))
       \<and> (c_output_name req = None \<or> c_output_name req = Some [] \<longrightarrow>
            cook_output_files res =
              filter (os_exists os (files w'))
                (map (\<lambda>input_file. os_path_join (cook_output_directory res)
                        (path_stem input_file @ ''.sbsar'')) (cook_input_files res)))
       \<and> cook_input_files res = map (os_resolve os (files w)) (c_input_files req)
       \<and> cook_output_directory res = os_resolve os (files w) (c_output_path req)"
proof -
  have a: "\<forall>name. c_merge req \<and> c_output_name req = Some name \<and> name \<noteq> [] \<longrightarrow>
            cook_output_files res =
              filter (os_exists os (files w'))
                [os_path_join (cook_output_directory res) (name @ ''.sbsar'')]"
    by (simp add: cook_result[OF assms] determine_output_files_def truthy_def Let_def)
  have b: "c_merge req \<and> c_output_name req = None \<longrightarrow>
            cook_output_files res =
              filter (os_exists os (files w'))
                (map (\<lambda>input_file. os_path_join (cook_output_directory res)
                        (path_stem input_file @ ''.sbsar'')) (cook_input_files res))"
    by (simp add: cook_result[OF assms] determine_output_files_def truthy_def probe_inputs_eq)
  have c: "c_merge merge_demo \<and> c_output_name merge_demo = None"
    by (simp add: merge_demo_def cook_defaults_def)
  have d: "\<forall>name. \<not> c_merge req \<and> c_output_name req = Some name \<and> name \<noteq> [] \<longrightarrow>
            cook_output_files res =
              filter (os_exists os (files w'))
                (map (\<lambda>input_file. os_path_join (cook_output_directory res) (name @ ''.sbsar''))
                   (cook_input_files res))"
    by (simp add: cook_result[OF assms] determine_output_files_def truthy_def probe_inputs_eq)
  have e: "c_output_name req = None \<or> c_output_name req = Some [] \<longrightarrow>
            cook_output_files res =
              filter (os_exists os (files w'))
                (map (\<lambda>input_file. os_path_join (cook_output_directory res)
                        (path_stem input_file @ ''.sbsar'')) (cook_input_files res))"
    by (auto simp: cook_result[OF assms] determine_output_files_def truthy_def probe_inputs_eq)
  have f: "cook_input_files res = map (os_resolve os (files w)) (c_input_files req)"
    by (rule cook_result_inputs[OF assms])
  have g: "cook_output_directory res = os_resolve os (files w) (c_output_path req)"
    using assms
    by (auto simp: cook_def ensure_directory_def Let_def split: prod.splits sum.splits)
  from a b c merge_demo_run d e f g show ?thesis by (intro conjI) blast+
qed

text \<open>
  Three cooks of two files: merged without a name, where the tool picks the name and
  nothing is found; merged under the name \<open>pack\<close>, found once; and not merged under the
  name \<open>pack\<close>, where the same file is found once per input.
\<close>

theorem cook_output_probing_witness:
  "(\<exists>res w'. cook (sim_os (fixed_tool (Completed 0 [] []) [''/out/merged.sbsar'']))
              ''/bin/sbscooker'' merge_demo (world0 [''/in/a.sbs'', ''/in/b.sbs'']) = (Inr res, w')
     \<and> cook_output_files res =
         filter (os_exists (sim_os (fixed_tool (Completed 0 [] []) [''/out/merged.sbsar'']))
                   (files w'))
           (map (\<lambda>input_file. os_path_join (cook_output_directory res)
                   (path_stem input_file @ ''.sbsar'')) (cook_input_files res))
     \<and> cook_output_files res = [])
   \<and> (\<exists>res w'. cook (sim_os (fixed_tool (Completed 0 [] []) [''/out/pack.sbsar'']))
             ''/bin/sbscooker'' (named_demo True) (world0 [''/in/a.sbs'', ''/in/b.sbs''])
           = (Inr res, w')
      \<and> cook_output_files res =
          filter (os_exists (sim_os (fixed_tool (Completed 0 [] []) [''/out/pack.sbsar'']))
                    (files w'))
            [os_path_join (cook_output_directory res) ''pack.sbsar'']
      \<and> cook_output_files res = [''/out/pack.sbsar''])
   \<and> (\<exists>res w'. cook (sim_os (fixed_tool (Completed 0 [] []) [''/out/pack.sbsar'']))
             ''/bin/sbscooker'' (named_demo False) (world0 [''/in/a.sbs'', ''/in/b.sbs''])
           = (Inr res, w')
      \<and> cook_output_files res =
          filter (os_exists (sim_os (fixed_tool (Completed 0 [] []) [''/out/pack.sbsar'']))
                    (files w'))
            (map (\<lambda>input_file. os_path_join (cook_output_directory res) ''pack.sbsar'')
               (cook_input_files res))
      \<and> cook_input_files res = [''/in/a.sbs'', ''/in/b.sbs'']
      \<and> cook_output_files res = [''/out/pack.sbsar'', ''/out/pack.sbsar''])"
proof -
  let ?os = "sim_os (fixed_tool (Completed 0 [] []) [''/out/merged.sbsar''])"
  let ?os2 = "sim_os (fixed_tool (Completed 0 [] []) [''/out/pack.sbsar''])"
  let ?w = "world0 [''/in/a.sbs'', ''/in/b.sbs'']"
  from merge_demo_run obtain res w' where r:
    "cook ?os ''/bin/sbscooker'' merge_demo ?w = (Inr res, w')"
    "cook_output_files res = []"
    by blast
  have m: "c_merge merge_demo \<and> c_output_name merge_demo = None"
    by (simp add: merge_demo_def cook_defaults_def)
  from cook_output_probing[OF r(1)] m have
    "cook_output_files res =
       filter (os_exists ?os (files w'))
         (map (\<lambda>input_file. os_path_join (cook_output_directory res)
                 (path_stem input_file @ ''.sbsar'')) (cook_input_files res))"
    by blast
  with r have one: "\<exists>res w'. cook ?os ''/bin/sbscooker'' merge_demo ?w = (Inr res, w')
     \<and> cook_output_files res =
         filter (os_exists ?os (files w'))
           (map (\<lambda>input_file. os_path_join (cook_output_directory res)
                   (path_stem input_file @ ''.sbsar'')) (cook_input_files res))
     \<and> cook_output_files res = []"
    by blast
  from named_demo_run(1) obtain res2 w2 where r2:
    "cook ?os2 ''/bin/sbscooker'' (named_demo True) ?w = (Inr res2, w2)"
    "cook_output_files res2 = [''/out/pack.sbsar'']"
    by blast
  have m2: "c_merge (named_demo True) \<and> c_output_name (named_demo True) = Some ''pack''
            \<and> ''pack'' \<noteq> []"
    by (simp add: named_demo_def cook_defaults_def)
  from cook_output_probing[OF r2(1)] m2 have
    "cook_output_files res2 =
       filter (os_exists ?os2 (files w2)) [os_path_join (cook_output_directory res2) (''pack'' @ ''.sbsar'')]"
    by blast
  with r2 have two: "\<exists>res w'. cook ?os2 ''/bin/sbscooker'' (named_demo True) ?w = (Inr res, w')
      \<and> cook_output_files res =
          filter (os_exists ?os2 (files w')) [os_path_join (cook_output_directory res) ''pack.sbsar'']
      \<and> cook_output_files res = [''/out/pack.sbsar'']"
    by auto
  from named_demo_run(2) obtain res3 w3 where r3:
    "cook ?os2 ''/bin/sbscooker'' (named_demo False) ?w = (Inr res3, w3)"
    "cook_output_files res3 = [''/out/pack.sbsar'', ''/out/pack.sbsar'']"
    by blast
  have m3: "\<not> c_merge (named_demo False) \<and> c_output_name (named_demo False) = Some ''pack''
            \<and> ''pack'' \<noteq> []"
    by (simp add: named_demo_def cook_defaults_def)
  note t3 = cook_output_probing[OF r3(1)]
  from t3 m3 have p3:
    "cook_output_files res3 =
       filter (os_exists ?os2 (files w3))
         (map (\<lambda>input_file. os_path_join (cook_output_directory res3) (''pack'' @ ''.sbsar''))
            (cook_input_files res3))"
    by blast
  from t3 have "cook_input_files res3 =
      map (os_resolve ?os2 (files ?w)) (c_input_files (named_demo False))"
    by blast
  then have i3: "cook_input_files res3 = [''/in/a.sbs'', ''/in/b.sbs'']"
    by (simp add: named_demo_def cook_defaults_def sim_os_def)
  from r3 p3 i3 have three:
    "\<exists>res w'. cook ?os2 ''/bin/sbscooker'' (named_demo False) ?w = (Inr res, w')
      \<and> cook_output_files res =
          filter (os_exists ?os2 (files w'))
            (map (\<lambda>input_file. os_path_join (cook_output_directory res) ''pack.sbsar'')
               (cook_input_files res))
      \<and> cook_input_files res = [''/in/a.sbs'', ''/in/b.sbs'']
      \<and> cook_output_files res = [''/out/pack.sbsar'', ''/out/pack.sbsar'']"
    by auto
  from one two three show ?thesis by (intro conjI)
qed

section \<open>Properties of the renderer adapter\<close>

lemma collect_outputs_eq:
  "collect_outputs output_dir fmt listing =
     map (os_path_join output_dir)
       (filter (\<lambda>file. endswith (lower file) (''.'' @ lower fmt)) listing)"
  by (induction listing) (simp_all add: has_format_def)

lemma render_result:
  assumes "render os tool_path req w = (Inr res, w')"
  shows "find_output_files os (files w') (render_output_directory res) (r_output_format req) =
           Inr (render_output_files res)"
  using assms by (auto simp: render_def Let_def split: prod.splits sum.splits if_splits)

text \<open>
  Claim C2. When \<open>render\<close> returns a result, its \<open>output_files\<close> are exactly the entries
  of the output directory, as it is listed after the tool has run, whose lower-cased
  name ends with a dot and the lower-cased format, each joined to the directory, in
  listing order; whether the run wrote an entry or it was there before makes no
  difference. When the directory is gone after the run, the list is empty.
\<close>

theorem render_output_discovery:
  assumes "render os tool_path req w = (Inr res, w')"
  shows "(os_exists os (files w') (render_output_directory res) \<longrightarrow>
            (\<exists>listing. os_listdir os (files w') (render_output_directory res) = Inr listing
               \<and> render_output_files res =
                   map (os_path_join (render_output_directory res))
                     (filter (\<lambda>file. endswith (lower file) (''.'' @ lower (r_output_format req)))
                        listing)))
       \<and> (\<not> os_exists os (files w') (render_output_directory res) \<longrightarrow>
            render_output_files res = [])"
  using render_result[OF assms]
  by (auto simp: find_output_files_def collect_outputs_eq split: if_splits sum.splits)

text \<open>
  A directory that already holds \<open>stale.png\<close> and \<open>notes.txt\<close>, and a run that writes
  \<open>new_normal.PNG\<close>: both images are reported.
\<close>

lemma render_demo_run:
  "\<exists>res w'. render (sim_os (fixed_tool (Completed 0 [] []) [''/out/new_normal.PNG'']))
              ''/bin/sbsrender'' render_demo (world0 render_files) = (Inr res, w')
     \<and> render_output_files res = [''/out/stale.png'', ''/out/new_normal.PNG'']
     \<and> render_output_directory res = ''/out''
     \<and> files w' = render_files @ [''/out/new_normal.PNG'']"
  by (simp add: render_demo_def render_files_def render_simps sim_simps eval_simps)

theorem render_output_discovery_witness:
  "\<exists>res w'. render (sim_os (fixed_tool (Completed 0 [] []) [''/out/new_normal.PNG'']))
              ''/bin/sbsrender'' render_demo (world0 render_files) = (Inr res, w')
     \<and> os_listdir (sim_os (fixed_tool (Completed 0 [] []) [''/out/new_normal.PNG'']))
          (files w') ''/out'' = Inr [''stale.png'', ''notes.txt'', ''new_normal.PNG'']
     \<and> render_output_files res = [''/out/stale.png'', ''/out/new_normal.PNG'']"
proof -
  let ?os = "sim_os (fixed_tool (Completed 0 [] []) [''/out/new_normal.PNG''])"
  from render_demo_run obtain res w' where r:
    "render ?os ''/bin/sbsrender'' render_demo (world0 render_files) = (Inr res, w')"
    "render_output_directory res = ''/out''"
    "files w' = render_files @ [''/out/new_normal.PNG'']"
    by blast
  have ex: "os_exists ?os (files w') (render_output_directory res)"
    by (simp add: r sim_os_def render_files_def)
  have ls: "os_listdir ?os (files w') ''/out'' = Inr [''stale.png'', ''notes.txt'', ''new_normal.PNG'']"
    by (simp add: r sim_os_def render_files_def sim_listdir_def startswith_def)
  from render_output_discovery[OF r(1)] ex obtain listing where l:
    "os_listdir ?os (files w') (render_output_directory res) = Inr listing"
    "render_output_files res =
       map (os_path_join (render_output_directory res))
         (filter (\<lambda>file. endswith (lower file) (''.'' @ lower (r_output_format render_demo)))
            listing)"
    by blast
  from l(1) ls r(2) have "listing = [''stale.png'', ''notes.txt'', ''new_normal.PNG'']"
    by simp
  with l(2) r(2) have "render_output_files res = [''/out/stale.png'', ''/out/new_normal.PNG'']"
    by (simp add: render_demo_def render_defaults_def endswith_def lower_def lower_char_def
          os_path_join_def startswith_def)
  with r(1) ls show ?thesis by blast
qed

lemma set_entry_args_missing:
  "(name, image_path) \<in> set entries \<Longrightarrow> \<not> os_exists os fs image_path \<Longrightarrow>
   \<exists>q \<in> snd ` set entries. \<not> os_exists os fs q \<and>
     set_entry_args os fs entries =
       Inl (SubstanceToolError (''Image entry file not found: '' @ q))"
proof (induction entries)
  case Nil
  then show ?case by simp
next
  case (Cons a entries)
  obtain n p where a: "a = (n, p)" by (cases a)
  show ?case
  proof (cases "os_exists os fs p")
    case False
    with a show ?thesis by auto
  next
    case True
    with Cons.prems a have "(name, image_path) \<in> set entries" by auto
    from Cons.IH[OF this Cons.prems(2)] obtain q where
      "q \<in> snd ` set entries" "\<not> os_exists os fs q"
      "set_entry_args os fs entries =
         Inl (SubstanceToolError (''Image entry file not found: '' @ q))"
      by blast
    with a True show ?thesis by auto
  qed
qed

text \<open>
  Claim C5. For a render request with a valid archive path, if a path of \<open>image_entries\<close>
  does not exist when \<open>render\<close> checks it (after it has made sure of the output
  directory), then \<open>render\<close> fails and hands no command line to the command runner; and
  when the output directory could be made, the failure is the image-entry error for a
  missing path of the mapping.
\<close>

theorem render_missing_image_entry_not_spawned:
  assumes "validate_file_path os w (r_sbsar_file req) True = Inr sbsar"
    and "endswith (lower sbsar) ''.sbsar''"
    and "r_image_entries req = Some entries"
    and "(name, image_path) \<in> set entries"
    and "\<not> os_exists os (files (snd (ensure_directory os w (r_output_path req)))) image_path"
  shows "spawned (snd (render os tool_path req w)) = spawned w
       \<and> (\<exists>e. fst (render os tool_path req w) = Inl e)
       \<and> (\<forall>output_dir w1. ensure_directory os w (r_output_path req) = (Inr output_dir, w1) \<longrightarrow>
            (\<exists>q \<in> snd ` set entries. \<not> os_exists os (files w1) q \<and>
               render os tool_path req w =
                 (Inl (SubstanceToolError (''Image entry file not found: '' @ q)), w1)))"
proof (cases "ensure_directory os w (r_output_path req)")
  case (Pair r w1)
  have sp: "spawned w1 = spawned w"
    using ensure_directory_spawned[of os w "r_output_path req"] Pair by simp
  show ?thesis
  proof (cases r)
    case (Inl e)
    with Pair assms(1,2) sp show ?thesis by (simp add: render_def)
  next
    case (Inr output_dir)
    from assms(5) Pair have "\<not> os_exists os (files w1) image_path" by simp
    from set_entry_args_missing[OF assms(4) this] obtain q where q:
      "q \<in> snd ` set entries" "\<not> os_exists os (files w1) q"
      "set_entry_args os (files w1) entries =
         Inl (SubstanceToolError (''Image entry file not found: '' @ q))"
      by blast
    have "render os tool_path req w =
            (Inl (SubstanceToolError (''Image entry file not found: '' @ q)), w1)"
      using assms(1,2,3) Pair Inr q(3) by (simp add: render_def render_args_def)
    with q(1,2) Pair Inr sp show ?thesis by auto
  qed
qed

text \<open>A request with one image entry that exists and one that does not.\<close>

theorem render_missing_image_entry_not_spawned_witness:
  "render quiet_os ''/bin/sbsrender'' entry_demo (world0 render_files) =
     (Inl (SubstanceToolError ''Image entry file not found: /m/none.png''), world0 render_files)
   \<and> spawned (snd (render quiet_os ''/bin/sbsrender'' entry_demo (world0 render_files))) = []"
proof -
  let ?w = "world0 render_files"
  have v: "validate_file_path quiet_os ?w (r_sbsar_file entry_demo) True = Inr ''/m/brick.sbsar''"
    by (simp add: entry_demo_def render_demo_def render_files_def quiet_os_def sim_simps)
  have x: "endswith (lower ''/m/brick.sbsar'') ''.sbsar''"
    by (simp add: endswith_def lower_def lower_char_def)
  have en: "r_image_entries entry_demo = Some [(''mask'', ''/out/stale.png''), (''base'', ''/m/none.png'')]"
    by (simp add: entry_demo_def)
  have m: "(''base'', ''/m/none.png'') \<in> set [(''mask'', ''/out/stale.png''), (''base'', ''/m/none.png'')]"
    by simp
  have ed: "ensure_directory quiet_os ?w (r_output_path entry_demo) = (Inr ''/out'', ?w)"
    by (simp add: entry_demo_def render_demo_def render_files_def quiet_os_def sim_simps)
  have missing: "\<not> os_exists quiet_os
      (files (snd (ensure_directory quiet_os ?w (r_output_path entry_demo)))) ''/m/none.png''"
    by (simp add: ed) (simp add: quiet_os_def sim_os_def world0_def render_files_def)
  from render_missing_image_entry_not_spawned[OF v x en m missing, of "''/bin/sbsrender''"] ed
  obtain q where q: "q \<in> snd ` set [(''mask'', ''/out/stale.png''), (''base'', ''/m/none.png'')]"
    "\<not> os_exists quiet_os (files ?w) q"
    "render quiet_os ''/bin/sbsrender'' entry_demo ?w =
       (Inl (SubstanceToolError (''Image entry file not found: '' @ q)), ?w)"
    by blast
  from q(1,2) have "q = ''/m/none.png''"
    by (auto simp: quiet_os_def sim_os_def world0_def render_files_def)
  with q(3) show ?thesis by (simp add: world0_def)
qed

section \<open>Properties of the image bridge\<close>

text \<open>
  A batch that loads has one height and width throughout: the loop compares every image
  with the first.
\<close>

lemma load_loop_uniform:
  "load_loop pil os fs ps ref acc = Inr ts \<Longrightarrow>
   \<exists>r. (\<forall>r'. ref = Some r' \<longrightarrow> r = r') \<and>
       (\<forall>p \<in> set ps. \<exists>t. load_image_as_tensor pil os fs p = Inr t \<and> shape_1_3 t = r)"
proof (induction ps arbitrary: ref acc)
  case Nil
  then show ?case by (cases ref) auto
next
  case (Cons p ps)
  from Cons.prems obtain t where t: "load_image_as_tensor pil os fs p = Inr t"
    by (cases "load_image_as_tensor pil os fs p") auto
  show ?case
  proof (cases ref)
    case None
    with Cons.prems t have "load_loop pil os fs ps (Some (shape_1_3 t)) (acc @ [t]) = Inr ts"
      by simp
    from Cons.IH[OF this] have
      "\<forall>q \<in> set ps. \<exists>u. load_image_as_tensor pil os fs q = Inr u \<and> shape_1_3 u = shape_1_3 t"
      by auto
    with t None show ?thesis by auto
  next
    case (Some r')
    with Cons.prems t have same: "shape_1_3 t = r'"
      by (auto split: if_splits)
    with Cons.prems t Some have "load_loop pil os fs ps (Some r') (acc @ [t]) = Inr ts"
      by simp
    from Cons.IH[OF this] have
      "\<forall>q \<in> set ps. \<exists>u. load_image_as_tensor pil os fs q = Inr u \<and> shape_1_3 u = r'"
      by auto
    with t same Some show ?thesis by auto
  qed
qed

lemma load_images_mismatch:
  assumes "p \<in> set image_paths" "q \<in> set image_paths"
    and "load_image_as_tensor pil os fs p = Inr tp"
    and "load_image_as_tensor pil os fs q = Inr tq"
    and "shape_1_3 tp \<noteq> shape_1_3 tq"
  shows "\<exists>e. load_images_as_batch pil os fs image_paths = Inl e"
proof (cases "load_loop pil os fs image_paths None []")
  case (Inl e)
  with assms(1) show ?thesis by (auto simp: load_images_as_batch_def)
next
  case (Inr ts)
  from load_loop_uniform[OF this] obtain r where r:
    "\<forall>x \<in> set image_paths. \<exists>t. load_image_as_tensor pil os fs x = Inr t \<and> shape_1_3 t = r"
    by blast
  from r assms(1) obtain t1 where "load_image_as_tensor pil os fs p = Inr t1" "shape_1_3 t1 = r"
    by blast
  with assms(3) have p: "shape_1_3 tp = r" by simp
  from r assms(2) obtain t2 where "load_image_as_tensor pil os fs q = Inr t2" "shape_1_3 t2 = r"
    by blast
  with assms(4) have "shape_1_3 tq = r" by simp
  with p assms(5) have False by simp
  then show ?thesis ..
qed

lemma load_image_rgb:
  assumes "pil_contract pil fs" and "load_image_as_tensor pil os fs path = Inr tensor"
  shows "\<exists>img. pil_open pil fs path = Inr img
          \<and> t_shape tensor = [1, img_height img, img_width img, 3]
          \<and> length (t_data tensor) = img_height img * img_width img * 3
          \<and> (\<forall>v \<in> set (t_data tensor). 0 \<le> v \<and> v \<le> 1)"
proof -
  from assms(2) obtain img where img: "pil_open pil fs path = Inr img"
    by (cases "pil_open pil fs path") (auto simp: load_image_as_tensor_def split: if_splits)
  define img' where "img' = (if img_mode img \<noteq> ''RGB'' then pil_convert pil img ''RGB'' else Inr img)"
  from assms(2) img obtain rgb where rgb: "img' = Inr rgb"
    by (cases img') (auto simp: load_image_as_tensor_def img'_def split: if_splits)
  have ok: "rgb_image rgb \<and> img_height rgb = img_height img \<and> img_width rgb = img_width img"
  proof (cases "img_mode img = ''RGB''")
    case True
    with rgb have "rgb = img" by (simp add: img'_def)
    moreover from assms(1) img True have "rgb_image img"
      unfolding pil_contract_def by blast
    ultimately show ?thesis by simp
  next
    case False
    with rgb have "pil_convert pil img ''RGB'' = Inr rgb" by (simp add: img'_def)
    with assms(1) img show ?thesis
      unfolding pil_contract_def by blast
  qed
  have tensor: "tensor = \<lparr>t_shape = 1 # t_shape (np_array rgb),
                          t_data = map (\<lambda>v. v / 255) (t_data (np_array rgb))\<rparr>"
    using assms(2) img rgb
    by (auto simp: load_image_as_tensor_def img'_def Let_def split: if_splits)
  have range: "\<forall>v \<in> set (t_data tensor). 0 \<le> v \<and> v \<le> 1"
    using ok by (auto simp: tensor np_array_def rgb_image_def list_all_iff)
  from ok have "t_shape tensor = [1, img_height img, img_width img, 3]"
    "length (t_data tensor) = img_height img * img_width img * 3"
    by (simp_all add: tensor np_array_def rgb_image_def)
  with img range show ?thesis by blast
qed

lemma load_image_exact:
  assumes "load_image_as_tensor pil os fs path = Inr tensor"
  shows "\<exists>img rgb. pil_open pil fs path = Inr img
          \<and> (if img_mode img \<noteq> ''RGB'' then pil_convert pil img ''RGB'' else Inr img) = Inr rgb
          \<and> t_shape tensor = [1, img_height rgb, img_width rgb]
                @ (if img_bands rgb = 1 then [] else [img_bands rgb])
          \<and> t_data tensor = map (\<lambda>s. real s / 255) (img_samples rgb)
          \<and> (pil_contract pil fs \<longrightarrow>
                rgb_image rgb \<and> img_height rgb = img_height img \<and> img_width rgb = img_width img)"
proof -
  from assms obtain img where img: "pil_open pil fs path = Inr img"
    by (cases "pil_open pil fs path") (auto simp: load_image_as_tensor_def split: if_splits)
  define img' where "img' = (if img_mode img \<noteq> ''RGB'' then pil_convert pil img ''RGB'' else Inr img)"
  from assms img obtain rgb where rgb: "img' = Inr rgb"
    by (cases img') (auto simp: load_image_as_tensor_def img'_def split: if_splits)
  have ok: "pil_contract pil fs \<longrightarrow>
      rgb_image rgb \<and> img_height rgb = img_height img \<and> img_width rgb = img_width img"
  proof
    assume contract: "pil_contract pil fs"
    show "rgb_image rgb \<and> img_height rgb = img_height img \<and> img_width rgb = img_width img"
    proof (cases "img_mode img = ''RGB''")
      case True
      with rgb have "rgb = img" by (simp add: img'_def)
      moreover from contract img True have "rgb_image img"
        unfolding pil_contract_def by blast
      ultimately show ?thesis by simp
    next
      case False
      with rgb have "pil_convert pil img ''RGB'' = Inr rgb" by (simp add: img'_def)
      with contract img show ?thesis
        unfolding pil_contract_def by blast
    qed
  qed
  have tensor: "tensor = \<lparr>t_shape = 1 # t_shape (np_array rgb),
                          t_data = map (\<lambda>v. v / 255) (t_data (np_array rgb))\<rparr>"
    using assms img rgb
    by (auto simp: load_image_as_tensor_def img'_def Let_def split: if_splits)
  have shape: "t_shape tensor = [1, img_height rgb, img_width rgb]
                @ (if img_bands rgb = 1 then [] else [img_bands rgb])"
    by (simp add: tensor np_array_def)
  have data: "t_data tensor = map (\<lambda>s. real s / 255) (img_samples rgb)"
    by (simp add: tensor np_array_def comp_def)
  from img rgb shape data ok show ?thesis unfolding img'_def by blast
qed

text \<open>
  Claim C8. \<open>save_tensor_as_image\<close> raises a \<open>ValueError\<close> for a 4-dimensional tensor
  whose first dimension is not 1 and for a tensor of any dimension other than 3 and 4.
  \<open>load_images_as_batch\<close> raises when two images of the list load with different height
  and width. Given the imaging library keeps its contract, a loaded image is a tensor of
  shape \<open>[1, height, width, 3]\<close> whose elements lie between 0 and 1. In any case the
  tensor a load returns holds the samples of the image converted to mode \<open>RGB\<close> (of the
  image itself when it is of that mode already), each divided by 255, in the array's
  order, under a leading dimension of 1; and under the contract that image is an RGB
  image with three bands of the size of the file's image.
\<close>

theorem image_bridge_shape_contracts:
  "(length (t_shape t) = 4 \<and> hd (t_shape t) \<noteq> 1 \<longrightarrow>
      save_tensor_as_image pil os fs t output_path format quality =
        Inl (ValueError (''Expected single image, got batch size '' @ str_nat (hd (t_shape t)))))
   \<and> (length (t_shape t) \<noteq> 3 \<and> length (t_shape t) \<noteq> 4 \<longrightarrow>
      save_tensor_as_image pil os fs t output_path format quality =
        Inl (ValueError (''Expected 3D or 4D tensor, got '' @ str_nat (length (t_shape t)) @ ''D'')))
   \<and> (\<forall>p q tp tq.
         p \<in> set image_paths \<and> q \<in> set image_paths
         \<and> load_image_as_tensor pil os fs p = Inr tp \<and> load_image_as_tensor pil os fs q = Inr tq
         \<and> shape_1_3 tp \<noteq> shape_1_3 tq \<longrightarrow>
         (\<exists>e. load_images_as_batch pil os fs image_paths = Inl e))
   \<and> (\<forall>path tensor.
         pil_contract pil fs \<and> load_image_as_tensor pil os fs path = Inr tensor \<longrightarrow>
         (\<exists>img. pil_open pil fs path = Inr img
            \<and> t_shape tensor = [1, img_height img, img_width img, 3]
            \<and> length (t_data tensor) = img_height img * img_width img * 3
            \<and> (\<forall>v \<in> set (t_data tensor). 0 \<le> v \<and> v \<le> 1)))
   \<and> (\<forall>path tensor.
         load_image_as_tensor pil os fs path = Inr tensor \<longrightarrow>
         (\<exists>img rgb. pil_open pil fs path = Inr img
            \<and> (if img_mode img \<noteq> ''RGB'' then pil_convert pil img ''RGB'' else Inr img) = Inr rgb
            \<and> t_shape tensor = [1, img_height rgb, img_width rgb]
                  @ (if img_bands rgb = 1 then [] else [img_bands rgb])
            \<and> t_data tensor = map (\<lambda>s. real s / 255) (img_samples rgb)
            \<and> (pil_contract pil fs \<longrightarrow>
                  rgb_image rgb \<and> img_height rgb = img_height img
                  \<and> img_width rgb = img_width img)))"
proof -
  have a: "length (t_shape t) = 4 \<and> hd (t_shape t) \<noteq> 1 \<longrightarrow>
      save_tensor_as_image pil os fs t output_path format quality =
        Inl (ValueError (''Expected single image, got batch size '' @ str_nat (hd (t_shape t))))"
    by (simp add: save_tensor_as_image_def)
  have b: "length (t_shape t) \<noteq> 3 \<and> length (t_shape t) \<noteq> 4 \<longrightarrow>
      save_tensor_as_image pil os fs t output_path format quality =
        Inl (ValueError (''Expected 3D or 4D tensor, got '' @ str_nat (length (t_shape t)) @ ''D''))"
    by (simp add: save_tensor_as_image_def)
  have c: "\<forall>p q tp tq.
         p \<in> set image_paths \<and> q \<in> set image_paths
         \<and> load_image_as_tensor pil os fs p = Inr tp \<and> load_image_as_tensor pil os fs q = Inr tq
         \<and> shape_1_3 tp \<noteq> shape_1_3 tq \<longrightarrow>
         (\<exists>e. load_images_as_batch pil os fs image_paths = Inl e)"
  proof (intro allI impI)
    fix p q tp tq
    assume "p \<in> set image_paths \<and> q \<in> set image_paths
         \<and> load_image_as_tensor pil os fs p = Inr tp \<and> load_image_as_tensor pil os fs q = Inr tq
         \<and> shape_1_3 tp \<noteq> shape_1_3 tq"
    then show "\<exists>e. load_images_as_batch pil os fs image_paths = Inl e"
      by (elim conjE) (rule load_images_mismatch)
  qed
  have d: "\<forall>path tensor.
         pil_contract pil fs \<and> load_image_as_tensor pil os fs path = Inr tensor \<longrightarrow>
         (\<exists>img. pil_open pil fs path = Inr img
            \<and> t_shape tensor = [1, img_height img, img_width img, 3]
            \<and> length (t_data tensor) = img_height img * img_width img * 3
            \<and> (\<forall>v \<in> set (t_data tensor). 0 \<le> v \<and> v \<le> 1))"
  proof (intro allI impI)
    fix path tensor
    assume "pil_contract pil fs \<and> load_image_as_tensor pil os fs path = Inr tensor"
    then show "\<exists>img. pil_open pil fs path = Inr img
            \<and> t_shape tensor = [1, img_height img, img_width img, 3]
            \<and> length (t_data tensor) = img_height img * img_width img * 3
            \<and> (\<forall>v \<in> set (t_data tensor). 0 \<le> v \<and> v \<le> 1)"
      by (elim conjE) (rule load_image_rgb)
  qed
  have e: "\<forall>path tensor.
         load_image_as_tensor pil os fs path = Inr tensor \<longrightarrow>
         (\<exists>img rgb. pil_open pil fs path = Inr img
            \<and> (if img_mode img \<noteq> ''RGB'' then pil_convert pil img ''RGB'' else Inr img) = Inr rgb
            \<and> t_shape tensor = [1, img_height rgb, img_width rgb]
                  @ (if img_bands rgb = 1 then [] else [img_bands rgb])
            \<and> t_data tensor = map (\<lambda>s. real s / 255) (img_samples rgb)
            \<and> (pil_contract pil fs \<longrightarrow>
                  rgb_image rgb \<and> img_height rgb = img_height img
                  \<and> img_width rgb = img_width img))"
  proof (intro allI impI)
    fix path tensor
    assume "load_image_as_tensor pil os fs path = Inr tensor"
    then show "\<exists>img rgb. pil_open pil fs path = Inr img
            \<and> (if img_mode img \<noteq> ''RGB'' then pil_convert pil img ''RGB'' else Inr img) = Inr rgb
            \<and> t_shape tensor = [1, img_height rgb, img_width rgb]
                  @ (if img_bands rgb = 1 then [] else [img_bands rgb])
            \<and> t_data tensor = map (\<lambda>s. real s / 255) (img_samples rgb)
            \<and> (pil_contract pil fs \<longrightarrow>
                  rgb_image rgb \<and> img_height rgb = img_height img
                  \<and> img_width rgb = img_width img)"
      by (rule load_image_exact)
  qed
  from a b c d e show ?thesis by (intro conjI)
qed

text \<open>An imaging library with one RGB image of 1 by 2 and one grey image of 2 by 2.\<close>

lemma demo_pil_contract: "pil_contract demo_pil fs"
  by (auto simp: pil_contract_def demo_pil_def rgb_image_def split: if_splits)

lemma load_a:
  "load_image_as_tensor demo_pil quiet_os image_files ''/i/a.png'' =
     Inr \<lparr>t_shape = [1, 1, 2, 3], t_data = [0, 128 / 255, 1, 10 / 255, 20 / 255, 30 / 255]\<rparr>"
  by (simp add: load_image_as_tensor_def demo_pil_def quiet_os_def sim_os_def image_files_def
        np_array_def)

lemma load_b:
  "load_image_as_tensor demo_pil quiet_os image_files ''/i/b.png'' =
     Inr \<lparr>t_shape = [1, 2, 2, 3],
           t_data = [0, 0, 0, 64 / 255, 64 / 255, 64 / 255, 128 / 255, 128 / 255, 128 / 255,
                     1, 1, 1]\<rparr>"
  by (simp add: load_image_as_tensor_def demo_pil_def quiet_os_def sim_os_def image_files_def
        np_array_def)

lemma open_b: "pil_open demo_pil image_files ''/i/b.png'' = Inr grey_image"
  by (simp add: demo_pil_def grey_image_def)

lemma convert_b:
  "(if img_mode grey_image \<noteq> ''RGB'' then pil_convert demo_pil grey_image ''RGB''
    else Inr grey_image) = Inr rgb
   \<Longrightarrow> img_samples rgb = [0, 0, 0, 64, 64, 64, 128, 128, 128, 255, 255, 255]"
  by (auto simp: demo_pil_def grey_image_def)

theorem image_bridge_shape_contracts_witness:
  "save_tensor_as_image demo_pil quiet_os image_files
      \<lparr>t_shape = [2, 1, 1, 3], t_data = [0, 0, 0, 1, 1, 1]\<rparr> ''/o/x.png'' ''PNG'' 95 =
     Inl (ValueError ''Expected single image, got batch size 2'')
   \<and> save_tensor_as_image demo_pil quiet_os image_files
      \<lparr>t_shape = [1, 3], t_data = [0, 0, 0]\<rparr> ''/o/x.png'' ''PNG'' 95 =
     Inl (ValueError ''Expected 3D or 4D tensor, got 2D'')
   \<and> (\<exists>e. load_images_as_batch demo_pil quiet_os image_files [''/i/a.png'', ''/i/b.png''] = Inl e)
   \<and> (\<exists>tensor. load_image_as_tensor demo_pil quiet_os image_files ''/i/b.png'' = Inr tensor
         \<and> t_shape tensor = [1, 2, 2, 3]
         \<and> list_all (\<lambda>v. 0 \<le> v \<and> v \<le> 1) (t_data tensor))
   \<and> (\<exists>tensor. load_image_as_tensor demo_pil quiet_os image_files ''/i/b.png'' = Inr tensor
         \<and> t_data tensor =
             map (\<lambda>s. real s / 255) [0, 0, 0, 64, 64, 64, 128, 128, 128, 255, 255, 255])"
proof -
  let ?t4 = "\<lparr>t_shape = [2, 1, 1, 3], t_data = [0, 0, 0, 1, 1, 1 :: real]\<rparr>"
  let ?t2 = "\<lparr>t_shape = [1, 3], t_data = [0, 0, 0 :: real]\<rparr>"
  let ?paths = "[''/i/a.png'', ''/i/b.png'']"
  let ?ta = "\<lparr>t_shape = [1, 1, 2, 3],
               t_data = [0, 128 / 255, 1, 10 / 255, 20 / 255, 30 / 255 :: real]\<rparr>"
  let ?tb = "\<lparr>t_shape = [1, 2, 2, 3],
               t_data = [0, 0, 0, 64 / 255, 64 / 255, 64 / 255, 128 / 255, 128 / 255, 128 / 255,
                         1, 1, 1 :: real]\<rparr>"
  note four = image_bridge_shape_contracts[where t = ?t4 and pil = demo_pil and os = quiet_os
      and fs = image_files and output_path = "''/o/x.png''" and format = "''PNG''"
      and quality = 95 and image_paths = ?paths]
  note two = image_bridge_shape_contracts[where t = ?t2 and pil = demo_pil and os = quiet_os
      and fs = image_files and output_path = "''/o/x.png''" and format = "''PNG''"
      and quality = 95 and image_paths = ?paths]
  have n4: "str_nat (hd (t_shape ?t4)) = ''2''" by code_simp
  have n2: "str_nat (length (t_shape ?t2)) = ''2''" by code_simp
  have "length (t_shape ?t4) = 4 \<and> hd (t_shape ?t4) \<noteq> 1" by simp
  with four[THEN conjunct1] have
    "save_tensor_as_image demo_pil quiet_os image_files ?t4 ''/o/x.png'' ''PNG'' 95 =
       Inl (ValueError (''Expected single image, got batch size '' @ str_nat (hd (t_shape ?t4))))"
    by (rule mp)
  then have a: "save_tensor_as_image demo_pil quiet_os image_files ?t4 ''/o/x.png'' ''PNG'' 95 =
     Inl (ValueError ''Expected single image, got batch size 2'')"
    unfolding n4 by simp
  have "length (t_shape ?t2) \<noteq> 3 \<and> length (t_shape ?t2) \<noteq> 4" by simp
  with two[THEN conjunct2, THEN conjunct1] have
    "save_tensor_as_image demo_pil quiet_os image_files ?t2 ''/o/x.png'' ''PNG'' 95 =
       Inl (ValueError (''Expected 3D or 4D tensor, got '' @ str_nat (length (t_shape ?t2)) @ ''D''))"
    by (rule mp)
  then have b: "save_tensor_as_image demo_pil quiet_os image_files ?t2 ''/o/x.png'' ''PNG'' 95 =
     Inl (ValueError ''Expected 3D or 4D tensor, got 2D'')"
    unfolding n2 by simp
  have c: "\<exists>e. load_images_as_batch demo_pil quiet_os image_files ?paths = Inl e"
    by (rule four[THEN conjunct2, THEN conjunct2, THEN conjunct1, rule_format,
          of "''/i/a.png''" "''/i/b.png''" ?ta ?tb])
       (simp add: load_a load_b shape_1_3_def)
  have "pil_contract demo_pil image_files
        \<and> load_image_as_tensor demo_pil quiet_os image_files ''/i/b.png'' = Inr ?tb"
    by (simp add: demo_pil_contract load_b)
  from four[THEN conjunct2, THEN conjunct2, THEN conjunct2, THEN conjunct1, rule_format, OF this]
  have "\<forall>v \<in> set (t_data ?tb). 0 \<le> v \<and> v \<le> 1" by blast
  then have "list_all (\<lambda>v. 0 \<le> v \<and> v \<le> 1) (t_data ?tb)"
    by (simp only: list_all_iff)
  then have d: "\<exists>tensor. load_image_as_tensor demo_pil quiet_os image_files ''/i/b.png'' = Inr tensor
         \<and> t_shape tensor = [1, 2, 2, 3]
         \<and> list_all (\<lambda>v. 0 \<le> v \<and> v \<le> 1) (t_data tensor)"
    using load_b by simp
  from four[THEN conjunct2, THEN conjunct2, THEN conjunct2, THEN conjunct2, rule_format,
      OF load_b]
  obtain img rgb where o: "pil_open demo_pil image_files ''/i/b.png'' = Inr img"
    "(if img_mode img \<noteq> ''RGB'' then pil_convert demo_pil img ''RGB'' else Inr img) = Inr rgb"
    "t_data ?tb = map (\<lambda>s. real s / 255) (img_samples rgb)"
    by blast
  from o(1) open_b have "img = grey_image" by simp
  with o(2) have "img_samples rgb = [0, 0, 0, 64, 64, 64, 128, 128, 128, 255, 255, 255]"
    by (simp only: convert_b)
  with o(3) have "t_data ?tb =
      map (\<lambda>s. real s / 255) [0, 0, 0, 64, 64, 64, 128, 128, 128, 255, 255, 255]"
    by (simp only:)
  then have e: "\<exists>tensor. load_image_as_tensor demo_pil quiet_os image_files ''/i/b.png'' = Inr tensor
         \<and> t_data tensor =
             map (\<lambda>s. real s / 255) [0, 0, 0, 64, 64, 64, 128, 128, 128, 255, 255, 255]"
    using load_b by (intro exI[of _ ?tb] conjI)
  from a b c d e show ?thesis by (intro conjI)
qed

end
